theory Spec2Isabelle
  imports Main "HOL-Library.List_Lexorder" "HOL-Library.Char_ord"
begin

section \<open>Data-dependence analysis of the Ghidra plugins\<close>

text \<open>
  The repository holds two Jython scripts, \<^verbatim>\<open>Lab3_Plugin.py\<close> and
  \<^verbatim>\<open>Lab4_networkx.py\<close>. Both classify every instruction into the locations it
  defines and uses, and resolve every use to the address of the instruction that defined the
  location last. Locations and addresses are Python strings, and so is the sentinel
  \<^verbatim>\<open>'START'\<close> that stands for "no definition yet".
\<close>

subsection \<open>Python values used by the scripts\<close>

text \<open>The exceptions that the modelled code can raise.\<close>

datatype py_error = TypeError | AttributeError | KeyError | ValueError | RecursionError

text \<open>
  The two scripts share most of their text. Where they differ, the functions below take
  the script as an argument.
\<close>

datatype script = Lab3_Plugin | Lab4_networkx

text \<open>\<^verbatim>\<open>sep.join(xs)\<close>\<close>

fun join :: "string \<Rightarrow> string list \<Rightarrow> string" where
  "join sep [] = []"
| "join sep [x] = x"
| "join sep (x # y # ys) = x @ sep @ join sep (y # ys)"

text \<open>\<^verbatim>\<open>if x not in xs: xs.append(x)\<close>\<close>

definition append_new :: "string list \<Rightarrow> string \<Rightarrow> string list" where
  "append_new xs x = (if x \<notin> set xs then xs @ [x] else xs)"

subsection \<open>Instructions as the program database supplies them\<close>

text \<open>
  An element of \<^verbatim>\<open>getDefaultOperandRepresentationList(i)\<close> is a \<^verbatim>\<open>Register\<close>
  object or some other object (a character, a scalar, an address); the code reads it with
  \<^verbatim>\<open>str(element)\<close>, \<^verbatim>\<open>isinstance(element, Register)\<close> and comparison with the
  strings \<^verbatim>\<open>'['\<close> and \<^verbatim>\<open>']'\<close>.
\<close>

datatype element = Register string | Token string

fun str :: "element \<Rightarrow> string" where
  "str (Register name) = name"
| "str (Token text) = text"

record RefType =
  isConditional :: bool
  isFlow :: bool
  isRead :: bool
  isWrite :: bool

record operand =
  getRegister :: "string option"
  getOperandRefType :: RefType
  getDefaultOperandRepresentationList :: "element list"

text \<open>
  \<^verbatim>\<open>getAddress\<close> is the text of \<^verbatim>\<open>instruction.getAddress().toString()\<close>;
  \<^verbatim>\<open>getDefaultOperandRepresentation\<close> is the text of operand \<open>i\<close>, which the code
  asks for at the fixed indices 0 (CALL) and 1 (LEA).
\<close>

record instruction =
  getAddress :: string
  getMnemonicString :: string
  operands :: "operand list"
  getDefaultOperandRepresentation :: "nat \<Rightarrow> string"

subsection \<open>The regular expressions of analyze_instruction\<close>

definition is_digit :: "char \<Rightarrow> bool" where
  "is_digit c = (CHR ''0'' \<le> c \<and> c \<le> CHR ''9'')"

definition is_alpha :: "char \<Rightarrow> bool" where
  "is_alpha c = ((CHR ''a'' \<le> c \<and> c \<le> CHR ''z'') \<or> (CHR ''A'' \<le> c \<and> c \<le> CHR ''Z''))"

text \<open>The class \<^verbatim>\<open>[0-9a-fx]\<close> under \<^verbatim>\<open>re.IGNORECASE\<close>.\<close>

definition is_hex_or_x :: "char \<Rightarrow> bool" where
  "is_hex_or_x c =
     (is_digit c \<or> (CHR ''a'' \<le> c \<and> c \<le> CHR ''f'') \<or> (CHR ''A'' \<le> c \<and> c \<le> CHR ''F'')
      \<or> c = CHR ''x'' \<or> c = CHR ''X'')"

text \<open>The class \<^verbatim>\<open>\w\<close>, which decides where \<^verbatim>\<open>\b\<close> matches.\<close>

definition is_word_char :: "char \<Rightarrow> bool" where
  "is_word_char c = (is_alpha c \<or> is_digit c \<or> c = CHR ''_'')"

text \<open>
  \<^verbatim>\<open>re.search(r'\[([0-9a-fx]+)\]', s, re.IGNORECASE)\<close>: the leftmost bracket that is
  followed by one or more characters of the class and a closing bracket; the result is
  group 1.
\<close>

definition match_call_target_at :: "string \<Rightarrow> string option" where
  "match_call_target_at s =
     (case s of
        [] \<Rightarrow> None
      | c # r \<Rightarrow>
          if c = CHR ''[''
          then (case dropWhile is_hex_or_x r of
                  [] \<Rightarrow> None
                | d # _ \<Rightarrow> if d = CHR '']'' \<and> takeWhile is_hex_or_x r \<noteq> []
                          then Some (takeWhile is_hex_or_x r) else None)
          else None)"

fun search_call_target :: "string \<Rightarrow> string option" where
  "search_call_target [] = None"
| "search_call_target (c # cs) =
     (case match_call_target_at (c # cs) of
        Some g \<Rightarrow> Some g
      | None \<Rightarrow> search_call_target cs)"

text \<open>
  \<^verbatim>\<open>re.search(r'\[(.*?)\]', s)\<close>: the leftmost bracket whose first following closing
  bracket comes before any line break (the dot does not match a line break); group 1 is the
  text between them.
\<close>

definition not_closing :: "char \<Rightarrow> bool" where
  "not_closing c = (c \<noteq> CHR '']'' \<and> c \<noteq> CHR 0x0A)"

definition match_brackets_at :: "string \<Rightarrow> string option" where
  "match_brackets_at s =
     (case s of
        [] \<Rightarrow> None
      | c # r \<Rightarrow>
          if c = CHR ''[''
          then (case dropWhile not_closing r of
                  [] \<Rightarrow> None
                | d # _ \<Rightarrow> if d = CHR '']'' then Some (takeWhile not_closing r) else None)
          else None)"

fun search_brackets :: "string \<Rightarrow> string option" where
  "search_brackets [] = None"
| "search_brackets (c # cs) =
     (case match_brackets_at (c # cs) of
        Some g \<Rightarrow> Some g
      | None \<Rightarrow> search_brackets cs)"

text \<open>
  \<^verbatim>\<open>re.findall(r'\b([a-zA-Z]+)\b', s)\<close>: a match starts and ends at a word boundary, so
  the matches are the maximal runs of word characters that consist of letters only.
  \<open>word_runs\<close> collects the maximal runs of word characters, \<open>cur\<close> being the run read
  so far.
\<close>

fun word_runs :: "string \<Rightarrow> string \<Rightarrow> string list" where
  "word_runs cur [] = (if cur = [] then [] else [cur])"
| "word_runs cur (c # cs) =
     (if is_word_char c then word_runs (cur @ [c]) cs
      else (if cur = [] then [] else [cur]) @ word_runs [] cs)"

definition findall_letters :: "string \<Rightarrow> string list" where
  "findall_letters s = filter (list_all is_alpha) (word_runs [] s)"

subsection \<open>Definitions and uses of one instruction\<close>

text \<open>
  The local variables of the loop over the representation list of a memory operand.
  \<open>isReadSeen\<close> and \<open>isWriteSeen\<close> are the locals \<^verbatim>\<open>isRead\<close> and \<^verbatim>\<open>isWrite\<close>.
\<close>

record memory_locals =
  thisDynamic :: string
  isPart :: bool
  isInstance :: bool
  isReadSeen :: bool
  isWriteSeen :: bool
  eor :: bool

definition memory_locals_init :: memory_locals where
  "memory_locals_init =
     \<lparr>thisDynamic = [], isPart = False, isInstance = False, isReadSeen = False,
      isWriteSeen = False, eor = False\<rparr>"

text \<open>
  One round of the loop \<^verbatim>\<open>for element in refListing\<close>. The five \<^verbatim>\<open>if\<close> statements
  run one after the other. A register of a written operand is appended to \<^verbatim>\<open>defs\<close> by
  \<^verbatim>\<open>Lab3_Plugin.py\<close> and to \<^verbatim>\<open>uses\<close> by \<^verbatim>\<open>Lab4_networkx.py\<close>.
\<close>

definition memory_element ::
  "script \<Rightarrow> RefType \<Rightarrow> memory_locals \<times> string list \<times> string list \<Rightarrow> element \<Rightarrow>
   memory_locals \<times> string list \<times> string list" where
  "memory_element v opType st element =
     (case st of (m, defs, uses) \<Rightarrow>
      let m1 = (if isPart m then m\<lparr>thisDynamic := thisDynamic m @ str element\<rparr> else m);
          m2 = (if element = Token ''[''
                then m1\<lparr>isPart := True, thisDynamic := thisDynamic m1 @ str element\<rparr> else m1);
          m3 = (if element = Token '']'' then m2\<lparr>isPart := False, eor := True\<rparr> else m2);
          m4 = (case element of
                  Register name \<Rightarrow>
                    m3\<lparr>isInstance := True,
                       isReadSeen := (isReadSeen m3 \<or> isRead opType),
                       isWriteSeen := (isWriteSeen m3 \<or> isWrite opType)\<rparr>
                | Token text \<Rightarrow> m3);
          uses1 = (case element of
                     Register name \<Rightarrow> if isRead opType then append_new uses name else uses
                   | Token text \<Rightarrow> uses);
          defs1 = (case element of
                     Register name \<Rightarrow>
                       if isWrite opType \<and> v = Lab3_Plugin then append_new defs name else defs
                   | Token text \<Rightarrow> defs);
          uses2 = (case element of
                     Register name \<Rightarrow>
                       if isWrite opType \<and> v = Lab4_networkx then append_new uses1 name else uses1
                   | Token text \<Rightarrow> uses1);
          uses3 = (if isInstance m4 \<and> eor m4 \<and> thisDynamic m4 \<notin> set uses2 \<and> isReadSeen m4
                   then uses2 @ [thisDynamic m4] else uses2);
          defs2 = (if isInstance m4 \<and> eor m4 \<and> thisDynamic m4 \<notin> set defs1 \<and> isWriteSeen m4
                   then defs1 @ [thisDynamic m4] else defs1)
      in (m4, defs2, uses3))"

text \<open>One round of the loop over the operands.\<close>

definition operand_step :: "script \<Rightarrow> string list \<times> string list \<Rightarrow> operand \<Rightarrow> string list \<times> string list" where
  "operand_step v du opnd =
     (case du of (defs, uses) \<Rightarrow>
      let opType = getOperandRefType opnd in
      case getRegister opnd of
        Some name \<Rightarrow>
          let uses1 = (if isConditional opType \<and> isFlow opType then append_new uses ''eflags'' else uses);
              uses2 = (if isRead opType then append_new uses1 name else uses1);
              defs1 = (if isWrite opType then append_new defs name else defs)
          in (defs1, uses2)
      | None \<Rightarrow>
          snd (foldl (memory_element v opType) (memory_locals_init, defs, uses)
                 (getDefaultOperandRepresentationList opnd)))"

text \<open>
  \<^verbatim>\<open>operandRegisterHelper\<close> mutates the lists \<^verbatim>\<open>defs\<close> and \<^verbatim>\<open>uses\<close> of its
  caller; the model returns them.
\<close>

definition operandRegisterHelper ::
  "script \<Rightarrow> instruction \<Rightarrow> string list \<Rightarrow> string list \<Rightarrow> string list \<times> string list" where
  "operandRegisterHelper v instruction defs uses =
     foldl (operand_step v) (defs, uses) (operands instruction)"

text \<open>\<^verbatim>\<open>instruction.getRegister(i)\<close>, which is \<^verbatim>\<open>None\<close> when there is no such operand.\<close>

definition getRegisterAt :: "instruction \<Rightarrow> nat \<Rightarrow> string option" where
  "getRegisterAt instruction i =
     (if i < length (operands instruction) then getRegister (operands instruction ! i) else None)"

text \<open>
  The label \<^verbatim>\<open>"D: {} U: {}".format(", ".join(sorted(defs)), ", ".join(sorted(uses)))\<close>.
  Python compares strings character by character, a proper prefix being smaller; this is the
  order of \<^verbatim>\<open>HOL-Library.List_Lexorder\<close> over \<^verbatim>\<open>HOL-Library.Char_ord\<close>.
\<close>

definition def_use_label :: "string list \<Rightarrow> string list \<Rightarrow> string" where
  "def_use_label defs uses =
     ''D: '' @ join '', '' (sort defs) @ '' U: '' @ join '', '' (sort uses)"

text \<open>
  \<^verbatim>\<open>analyze_instruction\<close>. The chain of \<^verbatim>\<open>elif\<close> branches is kept in the order of
  the source. The last branch is a bare \<^verbatim>\<open>return\<close>, which yields \<^verbatim>\<open>None\<close>.
  Otherwise \<^verbatim>\<open>Lab3_Plugin.py\<close> returns the label with the two lists, and
  \<^verbatim>\<open>Lab4_networkx.py\<close> returns the label and stores the two lists in the global
  \<^verbatim>\<open>instruction_def_use\<close>; the model returns all three for both. In the LEA branch
  \<^verbatim>\<open>memoryRefMatch.group(1)\<close> raises \<^verbatim>\<open>AttributeError\<close> when the search found
  nothing, and the loop runs over a Python set, whose order of iteration the language does
  not fix: \<open>set_iter\<close> is that order, as a function from the list the set is built from.
\<close>

definition analyze_instruction ::
  "script \<Rightarrow> (string list \<Rightarrow> string list) \<Rightarrow> instruction \<Rightarrow>
   py_error + (string \<times> string list \<times> string list) option" where
  "analyze_instruction v set_iter instruction =
     (let mnemonic = getMnemonicString instruction;
          defs = fst (operandRegisterHelper v instruction [] []);
          uses = snd (operandRegisterHelper v instruction [] []);
          result = (\<lambda>defs uses. Inr (Some (def_use_label defs uses, defs, uses)))
      in
      if mnemonic = ''CALL'' then
        let callTargetRepresentation = getDefaultOperandRepresentation instruction 0;
            callTarget = (case search_call_target callTargetRepresentation of
                            Some g \<Rightarrow> ''['' @ g @ '']''
                          | None \<Rightarrow> callTargetRepresentation)
        in result defs (uses @ [callTarget])
      else if mnemonic = ''ADD'' \<or> mnemonic = ''SUB'' then result (append_new defs ''eflags'') uses
      else if mnemonic = ''AND'' \<or> mnemonic = ''OR'' \<or> mnemonic = ''XOR''
        then result (append_new defs ''eflags'') uses
      else if mnemonic = ''CMP'' then result (append_new defs ''eflags'') uses
      else if mnemonic = ''IMUL'' \<or> mnemonic = ''MUL'' then result (append_new defs ''eflags'') uses
      else if mnemonic = ''INC'' \<or> mnemonic = ''DEC'' then result (append_new defs ''eflags'') uses
      else if mnemonic \<in> set [''JA'', ''JZ'', ''JBE'', ''JC'', ''JG'', ''JL'', ''JLE'', ''JNC'', ''JNZ'']
        then result defs (append_new uses ''eflags'')
      else if mnemonic = ''JMP'' then result defs uses
      else if mnemonic = ''LEA'' then
        let defs1 = (case getRegisterAt instruction 0 of
                       Some destReg \<Rightarrow> append_new defs destReg
                     | None \<Rightarrow> defs);
            sourceOperand = getDefaultOperandRepresentation instruction 1
        in (case search_brackets sourceOperand of
              None \<Rightarrow> Inl AttributeError
            | Some g \<Rightarrow> result defs1 (foldl append_new uses (set_iter (findall_letters g))))
      else if mnemonic = ''LEAVE''
        then result (defs @ [''EBP'', ''ESP'']) (uses @ [''EBP'', ''[EBP]''])
      else if mnemonic = ''MOV'' then result defs uses
      else if mnemonic = ''MOVSX'' then result defs uses
      else if mnemonic = ''MOVZX'' then result defs uses
      else if mnemonic = ''POP''
        then result (append_new defs ''ESP'') (append_new (append_new uses ''[ESP]'') ''ESP'')
      else if mnemonic = ''PUSH''
        then result (append_new (append_new defs ''ESP'') ''[ESP]'') (append_new uses ''ESP'')
      else if mnemonic = ''RET'' then
        (case v of
           Lab3_Plugin \<Rightarrow>
             result (append_new defs ''ESP'') (append_new (append_new uses ''ESP'') ''[ESP]'')
         | Lab4_networkx \<Rightarrow> result (append_new defs ''ESP'') (append_new uses ''ESP''))
      else if mnemonic = ''SAR'' \<or> mnemonic = ''SAL'' then result (append_new defs ''eflags'') uses
      else if mnemonic = ''SETNZ'' then result defs (append_new uses ''eflags'')
      else if mnemonic = ''SHR'' \<or> mnemonic = ''SHL'' then result (append_new defs ''eflags'') uses
      else if mnemonic = ''STOSD.REP''
        then result [''[EDI]'', ''EDI''] (uses @ [''EAX'', ''EDI'', ''eflags''])
      else if mnemonic = ''TEST'' then result (append_new defs ''eflags'') uses
      else Inr None)"

text \<open>The mnemonics that have a branch of their own in \<^verbatim>\<open>analyze_instruction\<close>.\<close>

definition recognized_mnemonics :: "string list" where
  "recognized_mnemonics =
     [''CALL'', ''ADD'', ''SUB'', ''AND'', ''OR'', ''XOR'', ''CMP'', ''IMUL'', ''MUL'', ''INC'',
      ''DEC'', ''JA'', ''JZ'', ''JBE'', ''JC'', ''JG'', ''JL'', ''JLE'', ''JNC'', ''JNZ'', ''JMP'',
      ''LEA'', ''LEAVE'', ''MOV'', ''MOVSX'', ''MOVZX'', ''POP'', ''PUSH'', ''RET'', ''SAR'',
      ''SAL'', ''SETNZ'', ''SHR'', ''SHL'', ''STOSD.REP'', ''TEST'']"

subsection \<open>The reaching-definition store: class DDStorage\<close>

text \<open>
  \<^verbatim>\<open>DDStorage\<close> has one field, the dictionary \<^verbatim>\<open>self.defs\<close> from a location to
  the address of its last definer. The two scripts define the class with the same text.
\<close>

type_synonym DDStorage = "string \<rightharpoonup> string"

definition DDStorage_init :: DDStorage where
  "DDStorage_init = Map.empty"

definition has :: "DDStorage \<Rightarrow> string \<Rightarrow> bool" where
  "has self register = (self register \<noteq> None)"

definition newDefine :: "DDStorage \<Rightarrow> string \<Rightarrow> string \<Rightarrow> DDStorage" where
  "newDefine self register address = self(register \<mapsto> address)"

text \<open>
  The first loop of \<^verbatim>\<open>processDataDep\<close>, with the list \<^verbatim>\<open>dependsOn\<close> as an
  accumulator. \<^verbatim>\<open>self.has(i)\<close> followed by \<^verbatim>\<open>self.getAddress(i)\<close> is the case
  distinction on the dictionary entry.
\<close>

fun resolve_uses :: "DDStorage \<Rightarrow> string list \<Rightarrow> string list \<Rightarrow> string list" where
  "resolve_uses self [] dependsOn = dependsOn"
| "resolve_uses self (i # uses) dependsOn =
     (case self i of
        Some a \<Rightarrow> resolve_uses self uses (dependsOn @ [a])
      | None \<Rightarrow>
          (if ''START'' \<notin> set dependsOn
           then resolve_uses self uses (dependsOn @ [''START''])
           else resolve_uses self uses dependsOn))"

text \<open>The second loop: every location of \<^verbatim>\<open>defs\<close> is bound to \<^verbatim>\<open>addr\<close>.\<close>

fun define_all :: "DDStorage \<Rightarrow> string list \<Rightarrow> string \<Rightarrow> DDStorage" where
  "define_all self [] addr = self"
| "define_all self (i # defs) addr = define_all (newDefine self i addr) defs addr"

text \<open>
  \<^verbatim>\<open>processDataDep\<close> returns the list and mutates the store; the model returns both.
\<close>

definition processDataDep ::
  "DDStorage \<Rightarrow> string list \<Rightarrow> string list \<Rightarrow> string \<Rightarrow> string list \<times> DDStorage" where
  "processDataDep self uses defs addr = (resolve_uses self uses [], define_all self defs addr)"

subsection \<open>Addresses as numbers\<close>

text \<open>
  \<^verbatim>\<open>int(x, 16)\<close> for a text of hexadecimal digits. Every other text is modelled as a
  \<^verbatim>\<open>ValueError\<close>; Python also accepts a sign, a prefix \<^verbatim>\<open>0x\<close> and blanks around
  the number, which the text of an address does not have.
\<close>

definition hex_digit :: "char \<Rightarrow> int option" where
  "hex_digit c =
     (if CHR ''0'' \<le> c \<and> c \<le> CHR ''9'' then Some (of_char c - 48)
      else if CHR ''a'' \<le> c \<and> c \<le> CHR ''f'' then Some (of_char c - 87)
      else if CHR ''A'' \<le> c \<and> c \<le> CHR ''F'' then Some (of_char c - 55)
      else None)"

fun hex_value :: "int \<Rightarrow> string \<Rightarrow> int option" where
  "hex_value acc [] = Some acc"
| "hex_value acc (c # cs) =
     (case hex_digit c of None \<Rightarrow> None | Some d \<Rightarrow> hex_value (16 * acc + d) cs)"

definition int16 :: "string \<Rightarrow> int option" where
  "int16 x = (if x = [] then None else hex_value 0 x)"

text \<open>\<^verbatim>\<open>instruction_list.sort(key=lambda x: int(x, 16))\<close>; the sort is stable.\<close>

definition sort_by_address :: "string list \<Rightarrow> py_error + string list" where
  "sort_by_address xs =
     (if list_all (\<lambda>x. int16 x \<noteq> None) xs
      then Inr (sort_key (\<lambda>x. the (int16 x)) xs) else Inl ValueError)"

subsection \<open>collect_instructions\<close>

text \<open>
  The values that \<^verbatim>\<open>collect_instructions\<close> builds while it walks over the instructions
  of a function, together with the global dictionary \<^verbatim>\<open>instruction_def_use\<close>.
  \<^verbatim>\<open>Lab3_Plugin.py\<close> keys that dictionary by \<^verbatim>\<open>addr_str\<close> and
  \<^verbatim>\<open>Lab4_networkx.py\<close> by the instruction object, which the model identifies by the
  text of its address. A label of \<^verbatim>\<open>def_use_info\<close> is \<^verbatim>\<open>None\<close> where
  \<^verbatim>\<open>analyze_instruction\<close> returned \<^verbatim>\<open>None\<close>. The store and \<^verbatim>\<open>dependsOn\<close>
  exist in \<^verbatim>\<open>Lab3_Plugin.py\<close> only. The jump tables that feed the control-flow graph
  are left out.
\<close>

record collected =
  instruction_list :: "string list"
  ret_instructions :: "string set"
  def_use_info :: "string \<rightharpoonup> string option"
  instruction_def_use :: "string \<rightharpoonup> string list \<times> string list"
  dependsOn :: "string \<rightharpoonup> string list"
  storage :: DDStorage

definition collected_init :: collected where
  "collected_init =
     \<lparr>instruction_list = [], ret_instructions = {}, def_use_info = Map.empty,
      instruction_def_use = Map.empty, dependsOn = Map.empty, storage = DDStorage_init\<rparr>"

text \<open>
  The body of the loop for one instruction. \<^verbatim>\<open>Lab3_Plugin.py\<close> unpacks the result of
  \<^verbatim>\<open>analyze_instruction\<close> into three names, which raises \<^verbatim>\<open>TypeError\<close> when the
  result is \<^verbatim>\<open>None\<close>; \<^verbatim>\<open>Lab4_networkx.py\<close> stores the result as the label.
\<close>

definition collect_step ::
  "script \<Rightarrow> (string list \<Rightarrow> string list) \<Rightarrow> collected \<Rightarrow> instruction \<Rightarrow> py_error + collected" where
  "collect_step v set_iter c instruction =
     (let addr_str = drop 2 (getAddress instruction);
          c1 = c\<lparr>instruction_list := instruction_list c @ [addr_str]\<rparr>;
          rets = (if getMnemonicString instruction = ''RET''
                  then insert addr_str (ret_instructions c) else ret_instructions c)
      in
      case analyze_instruction v set_iter instruction of
        Inl e \<Rightarrow> Inl e
      | Inr r \<Rightarrow>
          (case v of
             Lab3_Plugin \<Rightarrow>
               (case r of
                  None \<Rightarrow> Inl TypeError
                | Some (label, defs, uses) \<Rightarrow>
                    let depend = fst (processDataDep (storage c) uses defs addr_str);
                        storage1 = snd (processDataDep (storage c) uses defs addr_str)
                    in Inr (c1\<lparr>ret_instructions := rets,
                               def_use_info := (def_use_info c)(addr_str \<mapsto> Some label),
                               instruction_def_use := (instruction_def_use c)(addr_str \<mapsto> (defs, uses)),
                               dependsOn := (dependsOn c)(addr_str \<mapsto> depend),
                               storage := storage1\<rparr>))
           | Lab4_networkx \<Rightarrow>
               Inr (c1\<lparr>ret_instructions := rets,
                        def_use_info := (def_use_info c)(addr_str \<mapsto> map_option fst r),
                        instruction_def_use :=
                          (case r of
                             None \<Rightarrow> instruction_def_use c
                           | Some (label, defs, uses) \<Rightarrow>
                               (instruction_def_use c)(getAddress instruction \<mapsto> (defs, uses)))\<rparr>)))"

fun collect_loop ::
  "script \<Rightarrow> (string list \<Rightarrow> string list) \<Rightarrow> collected \<Rightarrow> instruction list \<Rightarrow> py_error + collected" where
  "collect_loop v set_iter c [] = Inr c"
| "collect_loop v set_iter c (instruction # rest) =
     (case collect_step v set_iter c instruction of
        Inl e \<Rightarrow> Inl e
      | Inr c1 \<Rightarrow> collect_loop v set_iter c1 rest)"

text \<open>
  \<^verbatim>\<open>collect_instructions\<close> on the instructions of a function, in the order in which the
  blocks and their addresses are iterated; the list of addresses is sorted at the end.
\<close>

definition collect_instructions ::
  "script \<Rightarrow> (string list \<Rightarrow> string list) \<Rightarrow> instruction list \<Rightarrow> py_error + collected" where
  "collect_instructions v set_iter instructions =
     (case collect_loop v set_iter collected_init instructions of
        Inl e \<Rightarrow> Inl e
      | Inr c \<Rightarrow>
          (case sort_by_address (instruction_list c) of
             Inl e \<Rightarrow> Inl e
           | Inr sorted_list \<Rightarrow> Inr (c\<lparr>instruction_list := sorted_list\<rparr>)))"

subsection \<open>compute_data_dependencies of Lab4_networkx.py\<close>

text \<open>An element of a path: the string \<^verbatim>\<open>"START"\<close> or an instruction.\<close>

datatype path_element = PathStart | PathInstruction instruction

text \<open>A value of \<^verbatim>\<open>all_dependencies\<close>: the keys \<^verbatim>\<open>'def'\<close>, \<^verbatim>\<open>'use'\<close>, \<^verbatim>\<open>'DD'\<close>.\<close>

record dependency_entry =
  entry_def :: "string list"
  entry_use :: "string list"
  DD :: "string list"

text \<open>
  The inner loop over one path. The key \<^verbatim>\<open>(instr_address, instr)\<close> is modelled by the
  address. A RET does not call \<^verbatim>\<open>processDataDep\<close>: its dependencies are the empty
  list and the store is left as it is. \<^verbatim>\<open>list(set(old + new))\<close> enumerates a set, in
  the order \<open>set_iter\<close>.
\<close>

fun path_dependencies ::
  "(string list \<Rightarrow> string list) \<Rightarrow> (string \<rightharpoonup> string list \<times> string list) \<Rightarrow> DDStorage \<Rightarrow>
   (string \<rightharpoonup> dependency_entry) \<Rightarrow> path_element list \<Rightarrow> (string \<rightharpoonup> dependency_entry)" where
  "path_dependencies set_iter idu store all_dependencies [] = all_dependencies"
| "path_dependencies set_iter idu store all_dependencies (PathStart # path) =
     path_dependencies set_iter idu store all_dependencies path"
| "path_dependencies set_iter idu store all_dependencies (PathInstruction instr # path) =
     (let instr_address = getAddress instr;
          defs = (case idu instr_address of Some du \<Rightarrow> fst du | None \<Rightarrow> []);
          uses = (case idu instr_address of Some du \<Rightarrow> snd du | None \<Rightarrow> []);
          dependencies = (if getMnemonicString instr = ''RET'' then []
                          else fst (processDataDep store uses defs instr_address));
          store1 = (if getMnemonicString instr = ''RET'' then store
                    else snd (processDataDep store uses defs instr_address));
          entry = (case all_dependencies instr_address of
                     Some old \<Rightarrow>
                       \<lparr>entry_def = defs, entry_use = uses, DD = set_iter (DD old @ dependencies)\<rparr>
                   | None \<Rightarrow> \<lparr>entry_def = defs, entry_use = uses, DD = dependencies\<rparr>)
      in path_dependencies set_iter idu store1 (all_dependencies(instr_address \<mapsto> entry)) path)"

text \<open>The outer loop: a new store for every path.\<close>

definition compute_data_dependencies ::
  "(string list \<Rightarrow> string list) \<Rightarrow> path_element list list \<Rightarrow>
   (string \<rightharpoonup> string list \<times> string list) \<Rightarrow> (string \<rightharpoonup> dependency_entry)" where
  "compute_data_dependencies set_iter all_paths idu =
     foldl (\<lambda>all_dependencies path.
              path_dependencies set_iter idu DDStorage_init all_dependencies path)
       Map.empty all_paths"

text \<open>\<^verbatim>\<open>prepend_START_to_each_path\<close>\<close>

definition prepend_START_to_each_path :: "instruction list list \<Rightarrow> path_element list list" where
  "prepend_START_to_each_path paths = map (\<lambda>path. PathStart # map PathInstruction path) paths"

text \<open>
  The part of \<^verbatim>\<open>process_functions\<close> of \<^verbatim>\<open>Lab4_networkx.py\<close> between the
  instructions of a function and its dependencies: \<^verbatim>\<open>collect_instructions\<close> fills
  \<^verbatim>\<open>instruction_def_use\<close>, and \<^verbatim>\<open>compute_data_dependencies\<close> walks the paths.
  The paths come from \<^verbatim>\<open>networkx.all_simple_paths\<close> and are taken as given, as
  sequences of instructions.
\<close>

definition Lab4_dependencies ::
  "(string list \<Rightarrow> string list) \<Rightarrow> instruction list \<Rightarrow> instruction list list \<Rightarrow>
   py_error + (string \<rightharpoonup> dependency_entry)" where
  "Lab4_dependencies set_iter instructions all_paths_instructions =
     (case collect_instructions Lab4_networkx set_iter instructions of
        Inl e \<Rightarrow> Inl e
      | Inr c \<Rightarrow>
          Inr (compute_data_dependencies set_iter
                 (prepend_START_to_each_path all_paths_instructions) (instruction_def_use c)))"

subsection \<open>reverse_traverse_cfg of Lab3_Plugin.py\<close>

text \<open>
  Basic blocks are numbered; \<open>getSources\<close> gives the predecessors of a block in the order
  of \<^verbatim>\<open>block.getSources(monitor)\<close>. The nested function \<^verbatim>\<open>traverse\<close> calls itself
  once for every predecessor, with a copy of \<^verbatim>\<open>visited\<close> and without the argument
  \<^verbatim>\<open>loop_limit\<close>, which then has its default value 1. The list \<^verbatim>\<open>paths\<close> is shared
  by all the calls; the model passes it along. The first argument bounds the depth of the
  recursion, and a recursion that goes deeper ends in \<^verbatim>\<open>RecursionError\<close>.
\<close>

fun traverse ::
  "nat \<Rightarrow> (nat \<Rightarrow> nat list) \<Rightarrow> nat \<Rightarrow> (nat \<Rightarrow> nat) \<Rightarrow> nat list \<Rightarrow> nat list list \<Rightarrow> nat \<Rightarrow> nat \<Rightarrow>
   py_error + nat list list"
and traverse_sources ::
  "nat \<Rightarrow> (nat \<Rightarrow> nat list) \<Rightarrow> nat list \<Rightarrow> (nat \<Rightarrow> nat) \<Rightarrow> nat list \<Rightarrow> nat list list \<Rightarrow> nat \<Rightarrow>
   py_error + nat list list" where
  "traverse 0 getSources block visited path paths entry_block loop_limit = Inl RecursionError"
| "traverse (Suc depth) getSources block visited path paths entry_block loop_limit =
     (if visited block = loop_limit then Inr paths
      else if block = entry_block then Inr (paths @ [block # path])
      else if getSources block = [] then Inr (paths @ [block # path])
      else traverse_sources depth getSources (getSources block)
             (visited(block := visited block + 1)) (block # path) paths entry_block)"
| "traverse_sources depth getSources [] visited path paths entry_block = Inr paths"
| "traverse_sources depth getSources (source_block # rest) visited path paths entry_block =
     (case traverse depth getSources source_block visited path paths entry_block 1 of
        Inl e \<Rightarrow> Inl e
      | Inr paths1 \<Rightarrow> traverse_sources depth getSources rest visited path paths1 entry_block)"

text \<open>
  The loop over the return blocks. The dictionary \<^verbatim>\<open>visited\<close> is the same object in
  every round, so the count that \<^verbatim>\<open>traverse\<close> adds for a return block stays.
\<close>

fun traverse_ret_blocks ::
  "nat \<Rightarrow> (nat \<Rightarrow> nat list) \<Rightarrow> nat list \<Rightarrow> (nat \<Rightarrow> nat) \<Rightarrow> nat list list \<Rightarrow> nat \<Rightarrow>
   py_error + nat list list" where
  "traverse_ret_blocks depth getSources [] visited paths entry_block = Inr paths"
| "traverse_ret_blocks depth getSources (ret_block # rest) visited paths entry_block =
     (case traverse depth getSources ret_block visited [] paths entry_block 1 of
        Inl e \<Rightarrow> Inl e
      | Inr paths1 \<Rightarrow>
          traverse_ret_blocks depth getSources rest
            (if visited ret_block = 1 then visited
             else visited(ret_block := visited ret_block + 1))
            paths1 entry_block)"

text \<open>
  \<^verbatim>\<open>reverse_traverse_cfg\<close>, up to the paths of blocks; \<^verbatim>\<open>visited\<close> starts with the
  count 0 for every block.
\<close>

definition reverse_traverse_cfg ::
  "nat \<Rightarrow> (nat \<Rightarrow> nat list) \<Rightarrow> nat \<Rightarrow> nat list \<Rightarrow> py_error + nat list list" where
  "reverse_traverse_cfg depth getSources entry_block ret_blocks =
     traverse_ret_blocks depth getSources ret_blocks (\<lambda>block. 0) [] entry_block"

text \<open>
  The state of \<^verbatim>\<open>traverse\<close> while it walks back from a return block: no count is
  above 1, the blocks of the path so far have the count 1, and no block is twice on the
  path.
\<close>

definition visited_ok :: "(nat \<Rightarrow> nat) \<Rightarrow> nat list \<Rightarrow> bool" where
  "visited_ok visited path =
     ((\<forall>b. visited b \<le> 1) \<and> (\<forall>b\<in>set path. visited b = 1) \<and> distinct path)"

text \<open>
  A function with one loop: block 0 is the entry, block 1 jumps back to itself or goes on
  to block 2, which returns.
\<close>

definition loop_example :: "nat \<Rightarrow> nat list" where
  "loop_example block = (if block = 1 then [0, 1] else if block = 2 then [1] else [])"

subsection \<open>The nodes of the dependency graph\<close>

text \<open>
  The text of a node counter in \<^verbatim>\<open>'n{}'.format(node_counter)\<close>: the decimal digits of
  a natural number.
\<close>

fun decimal :: "nat \<Rightarrow> string" where
  "decimal n =
     (if n < 10 then [''0123456789'' ! n]
      else decimal (n div 10) @ [''0123456789'' ! (n mod 10)])"

declare decimal.simps [simp del]

text \<open>\<^verbatim>\<open>s.lstrip(c)\<close> for a single character \<open>c\<close>.\<close>

definition lstrip :: "char \<Rightarrow> string \<Rightarrow> string" where
  "lstrip c s = dropWhile (\<lambda>x. x = c) s"

text \<open>
  \<^verbatim>\<open>create_dot_graph_DD\<close> of \<^verbatim>\<open>Lab3_Plugin.py\<close>, the loop that writes the nodes. A
  line is \<^verbatim>\<open>'    {} [label = "{}"];\n'.format(node_name, label)\<close>. The label of a
  dependency is \<^verbatim>\<open>'0x' + x if x != "START" else x\<close>, and the labels are joined in the
  order of the list \<^verbatim>\<open>dependsOn[addr]\<close>. The node \<^verbatim>\<open>n0\<close> of START is written in the
  first round of the loop. The model returns the lines of the nodes; the edges that follow
  them are left out.
\<close>

definition Lab3_node_line :: "string \<Rightarrow> string \<Rightarrow> string" where
  "Lab3_node_line node_name label =
     ''    '' @ node_name @ '' [label = '' @ [CHR 0x22] @ label @ [CHR 0x22] @ ''];'' @ [CHR 0x0A]"

definition Lab3_dependency :: "string \<Rightarrow> string" where
  "Lab3_dependency x = (if x \<noteq> ''START'' then ''0x'' @ x else x)"

definition Lab3_label :: "(string \<rightharpoonup> string list) \<Rightarrow> string \<Rightarrow> string" where
  "Lab3_label dependsOn' addr =
     (let addr_label = ''0x'' @ addr in
      case dependsOn' addr of
        Some deps \<Rightarrow> addr_label @ ''; DD: '' @ join '', '' (map Lab3_dependency deps)
      | None \<Rightarrow> addr_label @ '';'')"

fun create_dot_graph_DD_loop :: "(string \<rightharpoonup> string list) \<Rightarrow> nat \<Rightarrow> string list \<Rightarrow> string list" where
  "create_dot_graph_DD_loop dependsOn' node_counter [] = []"
| "create_dot_graph_DD_loop dependsOn' node_counter (addr # rest) =
     Lab3_node_line (''n'' @ decimal node_counter) (Lab3_label dependsOn' addr)
       # create_dot_graph_DD_loop dependsOn' (node_counter + 1) rest"

definition create_dot_graph_DD_nodes :: "string list \<Rightarrow> (string \<rightharpoonup> string list) \<Rightarrow> string list" where
  "create_dot_graph_DD_nodes instruction_list' dependsOn' =
     (if instruction_list' = [] then []
      else Lab3_node_line ''n0'' ''START'' # create_dot_graph_DD_loop dependsOn' 1 instruction_list')"

text \<open>
  \<^verbatim>\<open>generate_DD_dot_graph\<close> of \<^verbatim>\<open>Lab4_networkx.py\<close>, the lines of the nodes. The
  node of START is written before the loop, and the loop runs over
  \<^verbatim>\<open>["00" + instr for instr in instruction_list]\<close>. A line is
  \<^verbatim>\<open>'    {}  [label = "0x{}; DD: {}"];\n'.format(node_name, formatted_address, dd_labels)\<close>
  for an address with an entry in \<^verbatim>\<open>all_dependencies\<close>, and
  \<^verbatim>\<open>'    {}  [label = "0x{}; DD:"];\n'\<close> for one without. \<^verbatim>\<open>all_dependencies\<close> is
  keyed by the address, as in \<open>path_dependencies\<close>, so that an address has at most one
  entry. The labels are joined in the order of the list \<^verbatim>\<open>deps['DD']\<close>.
\<close>

definition Lab4_node_line :: "string \<Rightarrow> string \<Rightarrow> string" where
  "Lab4_node_line node_name label =
     ''    '' @ node_name @ ''  [label = '' @ [CHR 0x22] @ label @ [CHR 0x22] @ ''];'' @ [CHR 0x0A]"

definition dd_labels :: "string list \<Rightarrow> string" where
  "dd_labels deps =
     (if deps \<noteq> []
      then join '', '' (map (\<lambda>addr. if addr \<noteq> ''START'' then ''0x'' @ lstrip CHR ''0'' addr
                                  else ''START'') deps)
      else [])"

definition Lab4_label :: "(string \<rightharpoonup> dependency_entry) \<Rightarrow> string \<Rightarrow> string" where
  "Lab4_label all_dependencies instr_address =
     (let formatted_address = lstrip CHR ''0'' instr_address in
      case all_dependencies instr_address of
        Some deps \<Rightarrow> ''0x'' @ formatted_address @ ''; DD: '' @ dd_labels (DD deps)
      | None \<Rightarrow> ''0x'' @ formatted_address @ ''; DD:'')"

fun generate_DD_dot_graph_loop ::
  "(string \<rightharpoonup> dependency_entry) \<Rightarrow> nat \<Rightarrow> string list \<Rightarrow> string list" where
  "generate_DD_dot_graph_loop all_dependencies node_counter [] = []"
| "generate_DD_dot_graph_loop all_dependencies node_counter (instr # rest) =
     Lab4_node_line (''n'' @ decimal node_counter) (Lab4_label all_dependencies instr)
       # generate_DD_dot_graph_loop all_dependencies (node_counter + 1) rest"

definition generate_DD_dot_graph_nodes ::
  "string list \<Rightarrow> (string \<rightharpoonup> dependency_entry) \<Rightarrow> string list" where
  "generate_DD_dot_graph_nodes instruction_list' all_dependencies =
     Lab4_node_line ''n0'' ''START''
       # generate_DD_dot_graph_loop all_dependencies 1 (map (\<lambda>instr. ''00'' @ instr) instruction_list')"

subsection \<open>Example instructions\<close>

text \<open>
  Operand reference types as the program database reports them: a register that the
  instruction reads, one that it writes, and an operand that is neither (a constant).
\<close>

definition READ :: RefType where
  "READ = \<lparr>isConditional = False, isFlow = False, isRead = True, isWrite = False\<rparr>"

definition WRITE :: RefType where
  "WRITE = \<lparr>isConditional = False, isFlow = False, isRead = False, isWrite = True\<rparr>"

definition DATA :: RefType where
  "DATA = \<lparr>isConditional = False, isFlow = False, isRead = False, isWrite = False\<rparr>"

definition register_operand :: "string \<Rightarrow> RefType \<Rightarrow> operand" where
  "register_operand name t =
     \<lparr>getRegister = Some name, getOperandRefType = t,
      getDefaultOperandRepresentationList = [Register name]\<rparr>"

definition other_operand :: "element list \<Rightarrow> RefType \<Rightarrow> operand" where
  "other_operand elements t =
     \<lparr>getRegister = None, getOperandRefType = t,
      getDefaultOperandRepresentationList = elements\<rparr>"

definition asm :: "string \<Rightarrow> string \<Rightarrow> operand list \<Rightarrow> instruction" where
  "asm address mnemonic ops =
     \<lparr>getAddress = address, getMnemonicString = mnemonic, operands = ops,
      getDefaultOperandRepresentation =
        (\<lambda>i. if i < length ops
              then concat (map str (getDefaultOperandRepresentationList (ops ! i)))
              else [])\<rparr>"

text \<open>
  The sequence of the docstring of \<^verbatim>\<open>Lab3_Plugin.py\<close>:
  \<^verbatim>\<open>MOV EAX,0x1; MOV ECX,0x2; PUSH ECX; PUSH EAX; POP ECX; POP EAX\<close>.
\<close>

definition push_pop_example :: "instruction list" where
  "push_pop_example =
     [asm ''00401000'' ''MOV'' [register_operand ''EAX'' WRITE, other_operand [Token ''0x1''] DATA],
      asm ''00401005'' ''MOV'' [register_operand ''ECX'' WRITE, other_operand [Token ''0x2''] DATA],
      asm ''0040100a'' ''PUSH'' [register_operand ''ECX'' READ],
      asm ''0040100b'' ''PUSH'' [register_operand ''EAX'' READ],
      asm ''0040100c'' ''POP'' [register_operand ''ECX'' WRITE],
      asm ''0040100d'' ''POP'' [register_operand ''EAX'' WRITE]]"

text \<open>A \<^verbatim>\<open>PUSH EAX\<close> followed by a \<^verbatim>\<open>RET\<close>.\<close>

definition push_ret_example :: "instruction list" where
  "push_ret_example =
     [asm ''00401000'' ''PUSH'' [register_operand ''EAX'' READ],
      asm ''00401001'' ''RET'' []]"

text \<open>An instruction whose mnemonic has no branch in \<^verbatim>\<open>analyze_instruction\<close>.\<close>

definition nop_example :: instruction where
  "nop_example = asm ''00401000'' ''NOP'' []"

text \<open>
  \<^verbatim>\<open>MOV dword ptr [EBP + -0x4],EAX\<close>: a memory operand that is written, with the
  register EBP inside the brackets, and a register that is read.
\<close>

definition mov_store_example :: instruction where
  "mov_store_example =
     asm ''00401010'' ''MOV''
       [other_operand [Token ''dword ptr '', Token ''['', Register ''EBP'', Token '' + '',
                       Token ''-0x4'', Token '']''] WRITE,
        register_operand ''EAX'' READ]"

text \<open>
  Reference types of the operand of a jump: the flow types of an unconditional and of a
  conditional jump.
\<close>

definition JUMP :: RefType where
  "JUMP = \<lparr>isConditional = False, isFlow = True, isRead = False, isWrite = False\<rparr>"

definition CONDITIONAL_JUMP :: RefType where
  "CONDITIONAL_JUMP = \<lparr>isConditional = True, isFlow = True, isRead = False, isWrite = False\<rparr>"

text \<open>
  A function with two branches, given by the instructions of its four basic blocks:
  block 0 is \<^verbatim>\<open>JZ 0x00401005\<close>, block 1 is \<^verbatim>\<open>PUSH EAX; JMP 0x00401006\<close>, block 2 is
  \<^verbatim>\<open>PUSH EBX\<close> and block 3 is \<^verbatim>\<open>RET\<close>. \<open>branch_sources\<close> gives the predecessors of
  a block: blocks 1 and 2 follow block 0, and block 3 follows both of them.
\<close>

definition branch_block :: "nat \<Rightarrow> instruction list" where
  "branch_block block =
     (if block = 0 then
        [asm ''00401000'' ''JZ'' [other_operand [Token ''0x00401005''] CONDITIONAL_JUMP]]
      else if block = 1 then
        [asm ''00401002'' ''PUSH'' [register_operand ''EAX'' READ],
         asm ''00401003'' ''JMP'' [other_operand [Token ''0x00401006''] JUMP]]
      else if block = 2 then
        [asm ''00401005'' ''PUSH'' [register_operand ''EBX'' READ]]
      else if block = 3 then
        [asm ''00401006'' ''RET'' []]
      else [])"

definition branch_sources :: "nat \<Rightarrow> nat list" where
  "branch_sources block =
     (if block = 1 \<or> block = 2 then [0] else if block = 3 then [1, 2] else [])"

text \<open>
  \<^verbatim>\<open>PUSH EAX; MOV ECX,0x2; PUSH ECX\<close>: the last instruction uses ECX, defined at
  401001, before ESP, defined at 401000.
\<close>

definition descending_example :: "instruction list" where
  "descending_example =
     [asm ''00401000'' ''PUSH'' [register_operand ''EAX'' READ],
      asm ''00401001'' ''MOV'' [register_operand ''ECX'' WRITE, other_operand [Token ''0x2''] DATA],
      asm ''00401006'' ''PUSH'' [register_operand ''ECX'' READ]]"

text \<open>\<^verbatim>\<open>MOV EAX,0x1\<close> at the address 00001000.\<close>

definition low_address_example :: "instruction list" where
  "low_address_example =
     [asm ''00001000'' ''MOV'' [register_operand ''EAX'' WRITE, other_operand [Token ''0x1''] DATA]]"

section \<open>Properties\<close>

subsection \<open>The store after a call\<close>

lemma define_all_apply:
  "define_all self defs addr l = (if l \<in> set defs then Some addr else self l)"
  by (induction defs arbitrary: self) (auto simp: newDefine_def)

subsection \<open>The list returned by a call\<close>

lemma resolve_uses_prefix:
  "\<exists>ys. resolve_uses self uses acc = acc @ ys"
proof (induction uses arbitrary: acc)
  case Nil
  then show ?case by simp
next
  case (Cons i uses)
  show ?case
  proof (cases "self i")
    case None
    then show ?thesis using Cons.IH[of acc] Cons.IH[of "acc @ [''START'']"] by auto
  next
    case (Some a)
    then show ?thesis using Cons.IH[of "acc @ [a]"] by auto
  qed
qed

lemma resolve_uses_acc_subset:
  "set acc \<subseteq> set (resolve_uses self uses acc)"
  using resolve_uses_prefix[of self uses acc] by auto

lemma resolve_uses_defined:
  "i \<in> set uses \<Longrightarrow> self i = Some a \<Longrightarrow> a \<in> set (resolve_uses self uses acc)"
proof (induction uses arbitrary: acc)
  case Nil
  then show ?case by simp
next
  case (Cons j uses)
  show ?case
  proof (cases "j = i")
    case True
    then show ?thesis
      using Cons.prems resolve_uses_acc_subset[of "acc @ [a]" self uses] by auto
  next
    case False
    then show ?thesis using Cons by (auto split: option.splits)
  qed
qed

lemma resolve_uses_undefined:
  "i \<in> set uses \<Longrightarrow> self i = None \<Longrightarrow> ''START'' \<in> set (resolve_uses self uses acc)"
proof (induction uses arbitrary: acc)
  case Nil
  then show ?case by simp
next
  case (Cons j uses)
  show ?case
  proof (cases "j = i")
    case True
    then show ?thesis
      using Cons.prems resolve_uses_acc_subset[of "acc @ [''START'']" self uses]
        resolve_uses_acc_subset[of "acc" self uses] by auto
  next
    case False
    then show ?thesis using Cons by (auto split: option.splits)
  qed
qed

lemma resolve_uses_elem:
  "x \<in> set (resolve_uses self uses acc) \<Longrightarrow>
   x \<in> set acc \<or> (\<exists>i\<in>set uses. self i = Some x) \<or>
   (x = ''START'' \<and> (\<exists>i\<in>set uses. self i = None))"
  by (induction uses arbitrary: acc) (fastforce split: option.splits if_splits)+

lemma resolve_uses_count_addr:
  "a \<noteq> ''START'' \<Longrightarrow>
   count_list (resolve_uses self uses acc) a =
   count_list acc a + length (filter (\<lambda>i. self i = Some a) uses)"
  by (induction uses arbitrary: acc) (auto split: option.splits)

lemma resolve_uses_count_START:
  "\<forall>i\<in>set uses. self i \<noteq> Some ''START'' \<Longrightarrow>
   count_list (resolve_uses self uses acc) ''START'' =
   count_list acc ''START'' +
     (if ''START'' \<notin> set acc \<and> (\<exists>i\<in>set uses. self i = None) then 1 else 0)"
  by (induction uses arbitrary: acc) (auto split: option.splits)

lemma resolve_uses_filter:
  "\<forall>i\<in>set uses. self i \<noteq> Some ''START'' \<Longrightarrow>
   filter (\<lambda>x. x \<noteq> ''START'') (resolve_uses self uses acc) =
   filter (\<lambda>x. x \<noteq> ''START'') acc @ List.map_filter self uses"
  by (induction uses arbitrary: acc) (auto simp: List.map_filter_simps split: option.splits)

lemma two_members_length:
  assumes "x \<in> set xs" and "y \<in> set xs" and "x \<noteq> y"
  shows "2 \<le> length xs"
proof -
  have "card {x, y} \<le> card (set xs)"
    using assms by (intro card_mono) auto
  also have "\<dots> \<le> length xs" by (rule card_length)
  finally show ?thesis using assms(3) by simp
qed

subsection \<open>Claims about processDataDep\<close>

text \<open>
  C1. A call \<^verbatim>\<open>processDataDep(uses, defs, addr)\<close> on a store whose entries for the used
  locations are instruction addresses (never the word START): every used location with a
  definer contributes that definer's address, and the addresses appear in the order of the
  uses; a used location without an entry contributes START, which occurs exactly once when
  some used location has no entry and not at all otherwise. The store is updated afterwards:
  every location of \<^verbatim>\<open>defs\<close> is bound to \<^verbatim>\<open>addr\<close> and every other entry is kept.
  The list is computed from the store as it was before the call: it is the list that a call
  with no definitions returns, and \<^verbatim>\<open>addr\<close> is in it only when some used location was
  already bound to \<^verbatim>\<open>addr\<close> before the call.
\<close>

theorem processDataDep_resolve:
  fixes self :: DDStorage
  assumes "\<forall>i\<in>set uses. self i \<noteq> Some ''START''" and "addr \<noteq> ''START''"
  shows "(\<forall>i\<in>set uses. case self i of
              Some a \<Rightarrow> a \<in> set (fst (processDataDep self uses defs addr))
            | None \<Rightarrow> ''START'' \<in> set (fst (processDataDep self uses defs addr)))
       \<and> filter (\<lambda>x. x \<noteq> ''START'') (fst (processDataDep self uses defs addr)) =
           List.map_filter self uses
       \<and> count_list (fst (processDataDep self uses defs addr)) ''START'' =
           (if \<exists>i\<in>set uses. self i = None then 1 else 0)
       \<and> (\<forall>l. snd (processDataDep self uses defs addr) l =
                (if l \<in> set defs then Some addr else self l))
       \<and> (addr \<in> set (fst (processDataDep self uses defs addr)) \<longrightarrow>
            (\<exists>i\<in>set uses. self i = Some addr))
       \<and> fst (processDataDep self uses defs addr) = fst (processDataDep self uses [] addr)"
proof -
  have each: "\<forall>i\<in>set uses. case self i of
              Some a \<Rightarrow> a \<in> set (resolve_uses self uses [])
            | None \<Rightarrow> ''START'' \<in> set (resolve_uses self uses [])"
    by (auto split: option.splits intro: resolve_uses_defined resolve_uses_undefined)
  have order: "filter (\<lambda>x. x \<noteq> ''START'') (resolve_uses self uses []) = List.map_filter self uses"
    using resolve_uses_filter[OF assms(1), of "[]"] by simp
  have once: "count_list (resolve_uses self uses []) ''START'' =
           (if \<exists>i\<in>set uses. self i = None then 1 else 0)"
    using resolve_uses_count_START[OF assms(1), of "[]"] by simp
  have own: "addr \<in> set (resolve_uses self uses []) \<longrightarrow> (\<exists>i\<in>set uses. self i = Some addr)"
    using resolve_uses_elem[of addr self uses "[]"] assms(2) by auto
  show ?thesis
    unfolding processDataDep_def fst_conv snd_conv
    using each order once own by (simp add: define_all_apply)
qed

theorem processDataDep_resolve_witness:
  "fst (processDataDep [''EAX'' \<mapsto> ''1'', ''ECX'' \<mapsto> ''2''] [''ECX'', ''ESP'']
          [''ESP'', ''[ESP]''] ''3'') = [''2'', ''START'']
   \<and> filter (\<lambda>x. x \<noteq> ''START'')
         (fst (processDataDep [''EAX'' \<mapsto> ''1'', ''ECX'' \<mapsto> ''2''] [''ECX'', ''ESP'']
            [''ESP'', ''[ESP]''] ''3'')) = [''2'']
   \<and> count_list (fst (processDataDep [''EAX'' \<mapsto> ''1'', ''ECX'' \<mapsto> ''2''] [''ECX'', ''ESP'']
         [''ESP'', ''[ESP]''] ''3'')) ''START'' = 1
   \<and> snd (processDataDep [''EAX'' \<mapsto> ''1'', ''ECX'' \<mapsto> ''2''] [''ECX'', ''ESP'']
         [''ESP'', ''[ESP]''] ''3'') ''ESP'' = Some ''3''
   \<and> snd (processDataDep [''EAX'' \<mapsto> ''1'', ''ECX'' \<mapsto> ''2''] [''ECX'', ''ESP'']
         [''ESP'', ''[ESP]''] ''3'') ''EAX'' = Some ''1''"
proof -
  have h1: "\<forall>i\<in>set [''ECX'', ''ESP'']. [''EAX'' \<mapsto> ''1'', ''ECX'' \<mapsto> ''2''] i \<noteq> Some ''START''"
    by simp
  have h2: "''3'' \<noteq> ''START''" by simp
  note t = processDataDep_resolve[OF h1 h2, of "[''ESP'', ''[ESP]'']"]
  have c1: "fst (processDataDep [''EAX'' \<mapsto> ''1'', ''ECX'' \<mapsto> ''2''] [''ECX'', ''ESP'']
          [''ESP'', ''[ESP]''] ''3'') = [''2'', ''START'']"
    by (simp add: processDataDep_def)
  have c2: "filter (\<lambda>x. x \<noteq> ''START'')
         (fst (processDataDep [''EAX'' \<mapsto> ''1'', ''ECX'' \<mapsto> ''2''] [''ECX'', ''ESP'']
            [''ESP'', ''[ESP]''] ''3'')) = [''2'']"
    using t[THEN conjunct2, THEN conjunct1] by (simp add: processDataDep_def)
  have c3: "count_list (fst (processDataDep [''EAX'' \<mapsto> ''1'', ''ECX'' \<mapsto> ''2''] [''ECX'', ''ESP'']
         [''ESP'', ''[ESP]''] ''3'')) ''START'' = 1"
    using t[THEN conjunct2, THEN conjunct2, THEN conjunct1] by (simp add: processDataDep_def)
  note upd = t[THEN conjunct2, THEN conjunct2, THEN conjunct2, THEN conjunct1, rule_format]
  have c4: "snd (processDataDep [''EAX'' \<mapsto> ''1'', ''ECX'' \<mapsto> ''2''] [''ECX'', ''ESP'']
         [''ESP'', ''[ESP]''] ''3'') ''ESP'' = Some ''3''"
    using upd[of "''ESP''"] by (simp add: processDataDep_def newDefine_def)
  have c5: "snd (processDataDep [''EAX'' \<mapsto> ''1'', ''ECX'' \<mapsto> ''2''] [''ECX'', ''ESP'']
         [''ESP'', ''[ESP]''] ''3'') ''EAX'' = Some ''1''"
    using upd[of "''EAX''"] by (simp add: processDataDep_def newDefine_def)
  from c1 c2 c3 c4 c5 show ?thesis by blast
qed

text \<open>
  C9. After \<^verbatim>\<open>processDataDep(uses, defs, addr)\<close> every location that is not in
  \<^verbatim>\<open>defs\<close> has the entry it had before the call (or still none), and every location in
  \<^verbatim>\<open>defs\<close> is bound to \<^verbatim>\<open>addr\<close>.
\<close>

theorem processDataDep_frame:
  "snd (processDataDep self uses defs addr) l = (if l \<in> set defs then Some addr else self l)"
  by (simp add: processDataDep_def define_all_apply)

text \<open>
  C10. Definer addresses are not deduplicated: an address other than START occurs in the
  returned list once for every used location bound to it, so two distinct used locations
  with the same definer make that address occur at least twice.
\<close>

theorem processDataDep_repeats_definer:
  fixes self :: DDStorage
  assumes "a \<noteq> ''START''" and "self l1 = Some a" and "self l2 = Some a"
    and "l1 \<noteq> l2" and "l1 \<in> set uses" and "l2 \<in> set uses"
  shows "count_list (fst (processDataDep self uses defs addr)) a =
           length (filter (\<lambda>i. self i = Some a) uses)
       \<and> 2 \<le> count_list (fst (processDataDep self uses defs addr)) a"
proof -
  have n: "count_list (fst (processDataDep self uses defs addr)) a =
           length (filter (\<lambda>i. self i = Some a) uses)"
    using resolve_uses_count_addr[OF assms(1), of self uses "[]"]
    by (simp add: processDataDep_def)
  have "2 \<le> length (filter (\<lambda>i. self i = Some a) uses)"
    by (rule two_members_length[of l1 _ l2]) (use assms in auto)
  with n show ?thesis by simp
qed

theorem processDataDep_repeats_definer_witness:
  "fst (processDataDep [''ESP'' \<mapsto> ''4'', ''[ESP]'' \<mapsto> ''4''] [''[ESP]'', ''ESP'']
          [''ECX'', ''ESP''] ''5'') = [''4'', ''4'']
   \<and> 2 \<le> count_list (fst (processDataDep [''ESP'' \<mapsto> ''4'', ''[ESP]'' \<mapsto> ''4'']
          [''[ESP]'', ''ESP''] [''ECX'', ''ESP''] ''5'')) ''4''"
proof -
  have "2 \<le> count_list (fst (processDataDep [''ESP'' \<mapsto> ''4'', ''[ESP]'' \<mapsto> ''4'']
          [''[ESP]'', ''ESP''] [''ECX'', ''ESP''] ''5'')) ''4''"
    using processDataDep_repeats_definer[of "''4''" "[''ESP'' \<mapsto> ''4'', ''[ESP]'' \<mapsto> ''4'']"
        "''[ESP]''" "''ESP''" "[''[ESP]'', ''ESP'']" "[''ECX'', ''ESP'']" "''5''"]
    by simp
  then show ?thesis by (simp add: processDataDep_def)
qed

subsection \<open>Evaluating the examples\<close>

lemmas example_defs = push_pop_example_def asm_def register_operand_def other_operand_def
  READ_def WRITE_def DATA_def

lemmas analyze_defs = analyze_instruction_def operandRegisterHelper_def operand_step_def
  memory_element_def memory_locals_init_def append_new_def Let_def

lemmas collect_defs = collect_instructions_def collect_step_def collected_init_def
  DDStorage_init_def processDataDep_def newDefine_def asm_def sort_by_address_def int16_def
  hex_digit_def Let_def

lemma analyze_push_pop_example:
  "map (analyze_instruction v set_iter) push_pop_example =
   [Inr (Some (def_use_label [''EAX''] [], [''EAX''], [])),
    Inr (Some (def_use_label [''ECX''] [], [''ECX''], [])),
    Inr (Some (def_use_label [''ESP'', ''[ESP]''] [''ECX'', ''ESP''],
               [''ESP'', ''[ESP]''], [''ECX'', ''ESP''])),
    Inr (Some (def_use_label [''ESP'', ''[ESP]''] [''EAX'', ''ESP''],
               [''ESP'', ''[ESP]''], [''EAX'', ''ESP''])),
    Inr (Some (def_use_label [''ECX'', ''ESP''] [''[ESP]'', ''ESP''],
               [''ECX'', ''ESP''], [''[ESP]'', ''ESP''])),
    Inr (Some (def_use_label [''EAX'', ''ESP''] [''[ESP]'', ''ESP''],
               [''EAX'', ''ESP''], [''[ESP]'', ''ESP'']))]"
  by (simp add: example_defs analyze_defs)

lemma push_pop_example_Lab3:
  "\<exists>c. collect_instructions Lab3_Plugin set_iter push_pop_example = Inr c \<and>
     dependsOn c ''40100a'' = Some [''401005'', ''START''] \<and>
     dependsOn c ''40100b'' = Some [''401000'', ''40100a''] \<and>
     dependsOn c ''40100c'' = Some [''40100b'', ''40100b''] \<and>
     dependsOn c ''40100d'' = Some [''40100b'', ''40100c'']"
  using analyze_push_pop_example[of Lab3_Plugin set_iter]
  apply (simp add: push_pop_example_def)
  apply (simp add: collect_defs)
  done

lemma push_pop_example_Lab4:
  "\<exists>c. collect_instructions Lab4_networkx set_iter push_pop_example = Inr c \<and>
     map (\<lambda>a. map_option DD (compute_data_dependencies set_iter
             (prepend_START_to_each_path [push_pop_example]) (instruction_def_use c) a))
         [''0040100a'', ''0040100b'', ''0040100c'', ''0040100d''] =
     [Some [''00401005'', ''START''], Some [''00401000'', ''0040100a''],
      Some [''0040100b'', ''0040100b''], Some [''0040100b'', ''0040100c'']]"
  using analyze_push_pop_example[of Lab4_networkx set_iter]
  apply (simp add: push_pop_example_def)
  apply (simp add: collect_defs compute_data_dependencies_def prepend_START_to_each_path_def)
  done

subsection \<open>Claims about the analysis of instructions\<close>

text \<open>
  C4. The sequence \<^verbatim>\<open>MOV EAX,1; MOV ECX,2; PUSH ECX; PUSH EAX; POP ECX; POP EAX\<close> at
  the addresses 401000, 401005, 40100a, 40100b, 40100c and 40100d. Both scripts compute:
  \<^verbatim>\<open>PUSH ECX\<close> depends on the second \<^verbatim>\<open>MOV\<close> and START, \<^verbatim>\<open>PUSH EAX\<close> on the first
  \<^verbatim>\<open>MOV\<close> and \<^verbatim>\<open>PUSH ECX\<close>, \<^verbatim>\<open>POP ECX\<close> on \<^verbatim>\<open>PUSH EAX\<close> (listed twice), and
  \<^verbatim>\<open>POP EAX\<close> on \<^verbatim>\<open>PUSH EAX\<close> and \<^verbatim>\<open>POP ECX\<close>. The last set is not the set
  of \<^verbatim>\<open>POP ECX\<close> and \<^verbatim>\<open>PUSH ECX\<close> that the docstring of \<^verbatim>\<open>Lab3_Plugin.py\<close>
  announces, since \<^verbatim>\<open>PUSH ECX\<close> is not in it: the one key \<^verbatim>\<open>[ESP]\<close> stands for
  every stack cell, and its last definer is the latest \<^verbatim>\<open>PUSH\<close>.
\<close>

theorem push_pop_example_dependencies:
  "(\<exists>c. collect_instructions Lab3_Plugin set_iter push_pop_example = Inr c \<and>
     dependsOn c ''40100a'' = Some [''401005'', ''START''] \<and>
     dependsOn c ''40100b'' = Some [''401000'', ''40100a''] \<and>
     dependsOn c ''40100c'' = Some [''40100b'', ''40100b''] \<and>
     dependsOn c ''40100d'' = Some [''40100b'', ''40100c''])
   \<and> (\<exists>c. collect_instructions Lab4_networkx set_iter push_pop_example = Inr c \<and>
     map (\<lambda>a. map_option DD (compute_data_dependencies set_iter
             (prepend_START_to_each_path [push_pop_example]) (instruction_def_use c) a))
         [''0040100a'', ''0040100b'', ''0040100c'', ''0040100d''] =
     [Some [''00401005'', ''START''], Some [''00401000'', ''0040100a''],
      Some [''0040100b'', ''0040100b''], Some [''0040100b'', ''0040100c'']])
   \<and> ''40100a'' \<notin> set [''40100b'', ''40100c'']
   \<and> ''0040100a'' \<notin> set [''0040100b'', ''0040100c'']"
proof -
  have a: "''40100a'' \<notin> set [''40100b'', ''40100c'']" by simp
  have b: "''0040100a'' \<notin> set [''0040100b'', ''0040100c'']" by simp
  show ?thesis
    by (rule conjI[OF push_pop_example_Lab3 conjI[OF push_pop_example_Lab4 conjI[OF a b]]])
qed

lemma analyze_unrecognized:
  "getMnemonicString instruction \<notin> set recognized_mnemonics \<Longrightarrow>
   analyze_instruction v set_iter instruction = Inr None"
  by (simp add: analyze_instruction_def recognized_mnemonics_def Let_def)

lemma processDataDep_nothing: "processDataDep self [] [] addr = ([], self)"
  by (simp add: processDataDep_def)

text \<open>
  C2. An instruction whose mnemonic has no branch in \<^verbatim>\<open>analyze_instruction\<close> makes
  that function return \<^verbatim>\<open>None\<close>. \<^verbatim>\<open>Lab4_networkx.py\<close> goes on: the instruction
  stays in the instruction list, it gets no entry in \<^verbatim>\<open>instruction_def_use\<close>, and on a
  path it is given empty definitions, uses and dependencies. \<^verbatim>\<open>Lab3_Plugin.py\<close> does
  not: \<^verbatim>\<open>collect_instructions\<close> unpacks the \<^verbatim>\<open>None\<close> into three names and raises
  \<^verbatim>\<open>TypeError\<close>.
\<close>

theorem unrecognized_mnemonic:
  assumes "getMnemonicString instruction \<notin> set recognized_mnemonics"
  shows "analyze_instruction v set_iter instruction = Inr None
       \<and> collect_step Lab3_Plugin set_iter c instruction = Inl TypeError
       \<and> collect_step Lab4_networkx set_iter c instruction =
           Inr (c\<lparr>instruction_list := instruction_list c @ [drop 2 (getAddress instruction)],
                  def_use_info := (def_use_info c)(drop 2 (getAddress instruction) \<mapsto> None)\<rparr>)
       \<and> (idu (getAddress instruction) = None \<longrightarrow>
            path_dependencies set_iter idu store all_deps (PathInstruction instruction # path) =
            path_dependencies set_iter idu store
              (all_deps(getAddress instruction \<mapsto>
                 (case all_deps (getAddress instruction) of
                    Some old \<Rightarrow> \<lparr>entry_def = [], entry_use = [], DD = set_iter (DD old)\<rparr>
                  | None \<Rightarrow> \<lparr>entry_def = [], entry_use = [], DD = []\<rparr>))) path)"
proof -
  have none: "analyze_instruction v set_iter instruction = Inr None" for v
    using assms by (rule analyze_unrecognized)
  have not_ret: "getMnemonicString instruction \<noteq> ''RET''"
    using assms by (auto simp: recognized_mnemonics_def)
  have lab3: "collect_step Lab3_Plugin set_iter c instruction = Inl TypeError"
    by (simp add: collect_step_def none Let_def)
  have lab4: "collect_step Lab4_networkx set_iter c instruction =
           Inr (c\<lparr>instruction_list := instruction_list c @ [drop 2 (getAddress instruction)],
                  def_use_info := (def_use_info c)(drop 2 (getAddress instruction) \<mapsto> None)\<rparr>)"
    by (simp add: collect_step_def none not_ret Let_def)
  have path: "idu (getAddress instruction) = None \<longrightarrow>
            path_dependencies set_iter idu store all_deps (PathInstruction instruction # path) =
            path_dependencies set_iter idu store
              (all_deps(getAddress instruction \<mapsto>
                 (case all_deps (getAddress instruction) of
                    Some old \<Rightarrow> \<lparr>entry_def = [], entry_use = [], DD = set_iter (DD old)\<rparr>
                  | None \<Rightarrow> \<lparr>entry_def = [], entry_use = [], DD = []\<rparr>))) path"
  proof
    assume h: "idu (getAddress instruction) = None"
    show "path_dependencies set_iter idu store all_deps (PathInstruction instruction # path) =
            path_dependencies set_iter idu store
              (all_deps(getAddress instruction \<mapsto>
                 (case all_deps (getAddress instruction) of
                    Some old \<Rightarrow> \<lparr>entry_def = [], entry_use = [], DD = set_iter (DD old)\<rparr>
                  | None \<Rightarrow> \<lparr>entry_def = [], entry_use = [], DD = []\<rparr>))) path"
      by (simp add: h not_ret processDataDep_nothing Let_def cong: option.case_cong)
  qed
  from none lab3 lab4 path show ?thesis by blast
qed

theorem unrecognized_mnemonic_witness:
  "collect_instructions Lab3_Plugin remdups [nop_example] = Inl TypeError
   \<and> collect_step Lab4_networkx remdups collected_init nop_example =
       Inr (collected_init\<lparr>instruction_list := [''401000''],
                           def_use_info := [''401000'' \<mapsto> None]\<rparr>)"
proof -
  have h: "getMnemonicString nop_example \<notin> set recognized_mnemonics"
    by (simp add: nop_example_def asm_def recognized_mnemonics_def)
  note t = unrecognized_mnemonic[OF h, of Lab3_Plugin remdups collected_init]
  have "collect_instructions Lab3_Plugin remdups [nop_example] = Inl TypeError"
    using t by (simp add: collect_instructions_def)
  moreover have "collect_step Lab4_networkx remdups collected_init nop_example =
       Inr (collected_init\<lparr>instruction_list := [''401000''],
                           def_use_info := [''401000'' \<mapsto> None]\<rparr>)"
    using t by (simp add: nop_example_def asm_def collected_init_def)
  ultimately show ?thesis by blast
qed

lemma analyze_RET:
  "analyze_instruction v set_iter (instruction\<lparr>getMnemonicString := ''RET''\<rparr>) =
     (let defs = fst (operandRegisterHelper v instruction [] []);
          uses = snd (operandRegisterHelper v instruction [] [])
      in case v of
           Lab3_Plugin \<Rightarrow>
             Inr (Some (def_use_label (append_new defs ''ESP'') (append_new (append_new uses ''ESP'') ''[ESP]''),
                        append_new defs ''ESP'', append_new (append_new uses ''ESP'') ''[ESP]''))
         | Lab4_networkx \<Rightarrow>
             Inr (Some (def_use_label (append_new defs ''ESP'') (append_new uses ''ESP''),
                        append_new defs ''ESP'', append_new uses ''ESP'')))"
  by (simp add: analyze_instruction_def operandRegisterHelper_def Let_def split: script.splits)

lemma in_append_new: "x \<in> set (append_new xs y) \<longleftrightarrow> x \<in> set xs \<or> x = y"
  by (auto simp: append_new_def)

lemma analyze_push_ret_example:
  "map (analyze_instruction Lab4_networkx set_iter) push_ret_example =
   [Inr (Some (def_use_label [''ESP'', ''[ESP]''] [''EAX'', ''ESP''],
               [''ESP'', ''[ESP]''], [''EAX'', ''ESP''])),
    Inr (Some (def_use_label [''ESP''] [''ESP''], [''ESP''], [''ESP'']))]"
  by (simp add: push_ret_example_def example_defs analyze_defs)

lemma push_ret_example_Lab4:
  "(case Lab4_dependencies set_iter push_ret_example [push_ret_example] of
        Inl e \<Rightarrow> None
      | Inr d \<Rightarrow> map_option entry_def (d ''00401000'')) = Some [''ESP'', ''[ESP]'']
   \<and> (case Lab4_dependencies set_iter push_ret_example [push_ret_example] of
        Inl e \<Rightarrow> None
      | Inr d \<Rightarrow> map_option DD (d ''00401001'')) = Some []"
  using analyze_push_ret_example[of set_iter]
  apply (simp add: push_ret_example_def)
  apply (simp add: Lab4_dependencies_def collect_defs compute_data_dependencies_def
      prepend_START_to_each_path_def)
  done

lemma analyze_push_ret_example_Lab3:
  "map (analyze_instruction Lab3_Plugin set_iter) push_ret_example =
   [Inr (Some (def_use_label [''ESP'', ''[ESP]''] [''EAX'', ''ESP''],
               [''ESP'', ''[ESP]''], [''EAX'', ''ESP''])),
    Inr (Some (def_use_label [''ESP''] [''ESP'', ''[ESP]''], [''ESP''], [''ESP'', ''[ESP]'']))]"
  by (simp add: push_ret_example_def example_defs analyze_defs)

lemma push_ret_example_Lab3:
  "\<exists>c. collect_instructions Lab3_Plugin set_iter push_ret_example = Inr c \<and>
     dependsOn c ''401001'' = Some [''401000'', ''401000'']"
  using analyze_push_ret_example_Lab3[of set_iter]
  apply (simp add: push_ret_example_def)
  apply (simp add: collect_defs)
  done

lemma analyze_RET_no_operands:
  "analyze_instruction Lab4_networkx set_iter (asm address ''RET'' []) =
     Inr (Some (def_use_label [''ESP''] [''ESP''], [''ESP''], [''ESP'']))"
  by (simp add: asm_def analyze_defs)

lemmas branch_defs = branch_block_def asm_def register_operand_def other_operand_def
  READ_def JUMP_def CONDITIONAL_JUMP_def

lemma analyze_branch_example:
  "map (analyze_instruction Lab3_Plugin set_iter) (concat (map branch_block [0, 1, 2, 3])) =
   [Inr (Some (def_use_label [] [''eflags''], [], [''eflags''])),
    Inr (Some (def_use_label [''ESP'', ''[ESP]''] [''EAX'', ''ESP''],
               [''ESP'', ''[ESP]''], [''EAX'', ''ESP''])),
    Inr (Some (def_use_label [] [], [], [])),
    Inr (Some (def_use_label [''ESP'', ''[ESP]''] [''EBX'', ''ESP''],
               [''ESP'', ''[ESP]''], [''EBX'', ''ESP''])),
    Inr (Some (def_use_label [''ESP''] [''ESP'', ''[ESP]''], [''ESP''], [''ESP'', ''[ESP]'']))]"
  by (simp add: branch_defs analyze_defs)

lemma branch_example_paths:
  "reverse_traverse_cfg (3 + k) branch_sources 0 [3] = Inr [[0, 1, 3], [0, 2, 3]]"
proof -
  have k: "3 + k = Suc (Suc (Suc k))" by simp
  show ?thesis unfolding k by (simp add: reverse_traverse_cfg_def branch_sources_def)
qed

lemma branch_example_sweep:
  "\<exists>c. collect_instructions Lab3_Plugin set_iter (concat (map branch_block [0, 1, 2, 3])) = Inr c \<and>
     dependsOn c ''401005'' = Some [''START'', ''401002''] \<and>
     dependsOn c ''401006'' = Some [''401005'', ''401005'']"
  using analyze_branch_example[of set_iter]
  apply (simp add: branch_block_def)
  apply (simp add: collect_defs)
  done

lemma branch_example_first_path:
  "\<exists>c. collect_instructions Lab3_Plugin set_iter (concat (map branch_block [0, 1, 3])) = Inr c \<and>
     dependsOn c ''401006'' = Some [''401002'', ''401002'']"
  using analyze_branch_example[of set_iter]
  apply (simp add: branch_block_def)
  apply (simp add: collect_defs)
  done

lemma branch_example_second_path:
  "\<exists>c. collect_instructions Lab3_Plugin set_iter (concat (map branch_block [0, 2, 3])) = Inr c \<and>
     dependsOn c ''401005'' = Some [''START''] \<and>
     dependsOn c ''401006'' = Some [''401005'', ''401005'']"
  using analyze_branch_example[of set_iter]
  apply (simp add: branch_block_def)
  apply (simp add: collect_defs)
  done

lemma ret_defs_uses_Lab3:
  "\<exists>label defs uses.
      analyze_instruction Lab3_Plugin set_iter (instruction\<lparr>getMnemonicString := ''RET''\<rparr>) =
        Inr (Some (label, defs, uses))
      \<and> ''ESP'' \<in> set defs \<and> ''ESP'' \<in> set uses \<and> ''[ESP]'' \<in> set uses"
  by (simp add: analyze_RET Let_def in_append_new)

lemma ret_defs_uses_Lab4:
  "\<exists>label defs uses.
      analyze_instruction Lab4_networkx set_iter (instruction\<lparr>getMnemonicString := ''RET''\<rparr>) =
        Inr (Some (label, defs, uses))
      \<and> ''ESP'' \<in> set defs \<and> ''ESP'' \<in> set uses"
  by (simp add: analyze_RET Let_def in_append_new)

text \<open>
  C5. What the two scripts do with a RET. Both put ESP into its definitions and into its
  uses, and \<^verbatim>\<open>Lab3_Plugin.py\<close> puts \<^verbatim>\<open>[ESP]\<close> into its uses as well. The claim fails
  in three places.

  \<^item> In \<^verbatim>\<open>Lab4_networkx.py\<close> the uses of a RET without operands are ESP alone:
    \<^verbatim>\<open>[ESP]\<close> is missing.
  \<^item> In \<^verbatim>\<open>Lab4_networkx.py\<close> the RET of the path \<^verbatim>\<open>PUSH EAX; RET\<close> gets the empty
    list of dependencies, although the \<^verbatim>\<open>PUSH\<close> before it defines ESP and
    \<^verbatim>\<open>[ESP]\<close>; \<^verbatim>\<open>Lab3_Plugin.py\<close> makes that RET depend on the \<^verbatim>\<open>PUSH\<close>.
  \<^item> \<^verbatim>\<open>Lab3_Plugin.py\<close> resolves the uses in one sweep over the instructions of the
    function in the order of their addresses, not along the paths. In the function
    \<open>branch_block\<close>, whose two paths from the entry to the RET run through the blocks
    0, 1, 3 and 0, 2, 3, the sweep over the whole function makes the RET depend on
    \<^verbatim>\<open>PUSH EBX\<close> (401005) alone, and \<^verbatim>\<open>PUSH EBX\<close> on \<^verbatim>\<open>PUSH EAX\<close> (401002).
    The same sweep over the instructions of the first path alone makes the RET depend on
    \<^verbatim>\<open>PUSH EAX\<close>, which is the nearest definer on that path; over the second path
    alone it makes \<^verbatim>\<open>PUSH EBX\<close> depend on START only, since \<^verbatim>\<open>PUSH EAX\<close> is not
    on that path.
\<close>

theorem ret_dependencies:
  "(\<exists>label defs uses.
      analyze_instruction Lab3_Plugin set_iter (instruction\<lparr>getMnemonicString := ''RET''\<rparr>) =
        Inr (Some (label, defs, uses))
      \<and> ''ESP'' \<in> set defs \<and> ''ESP'' \<in> set uses \<and> ''[ESP]'' \<in> set uses)
   \<and> (\<exists>label defs uses.
      analyze_instruction Lab4_networkx set_iter (instruction\<lparr>getMnemonicString := ''RET''\<rparr>) =
        Inr (Some (label, defs, uses))
      \<and> ''ESP'' \<in> set defs \<and> ''ESP'' \<in> set uses)
   \<and> analyze_instruction Lab4_networkx set_iter (asm address ''RET'' []) =
        Inr (Some (def_use_label [''ESP''] [''ESP''], [''ESP''], [''ESP'']))
   \<and> ''[ESP]'' \<notin> set [''ESP'']
   \<and> (case Lab4_dependencies set_iter push_ret_example [push_ret_example] of
        Inl e \<Rightarrow> None
      | Inr d \<Rightarrow> map_option entry_def (d ''00401000'')) = Some [''ESP'', ''[ESP]'']
   \<and> (case Lab4_dependencies set_iter push_ret_example [push_ret_example] of
        Inl e \<Rightarrow> None
      | Inr d \<Rightarrow> map_option DD (d ''00401001'')) = Some []
   \<and> (\<exists>c. collect_instructions Lab3_Plugin set_iter push_ret_example = Inr c \<and>
        dependsOn c ''401001'' = Some [''401000'', ''401000''])
   \<and> reverse_traverse_cfg (3 + k) branch_sources 0 [3] = Inr [[0, 1, 3], [0, 2, 3]]
   \<and> (\<exists>c. collect_instructions Lab3_Plugin set_iter (concat (map branch_block [0, 1, 2, 3])) = Inr c \<and>
        dependsOn c ''401005'' = Some [''START'', ''401002''] \<and>
        dependsOn c ''401006'' = Some [''401005'', ''401005''])
   \<and> (\<exists>c. collect_instructions Lab3_Plugin set_iter (concat (map branch_block [0, 1, 3])) = Inr c \<and>
        dependsOn c ''401006'' = Some [''401002'', ''401002''])
   \<and> (\<exists>c. collect_instructions Lab3_Plugin set_iter (concat (map branch_block [0, 2, 3])) = Inr c \<and>
        dependsOn c ''401005'' = Some [''START''] \<and>
        dependsOn c ''401006'' = Some [''401005'', ''401005''])"
proof -
  have n: "''[ESP]'' \<notin> set [''ESP'']" by simp
  show ?thesis
    by (rule conjI[OF ret_defs_uses_Lab3 conjI[OF ret_defs_uses_Lab4
          conjI[OF analyze_RET_no_operands conjI[OF n
          conjI[OF push_ret_example_Lab4[THEN conjunct1]
          conjI[OF push_ret_example_Lab4[THEN conjunct2]
          conjI[OF push_ret_example_Lab3 conjI[OF branch_example_paths
          conjI[OF branch_example_sweep
          conjI[OF branch_example_first_path branch_example_second_path]]]]]]]]]])
qed

text \<open>
  C6. For the written memory operand of \<^verbatim>\<open>MOV dword ptr [EBP + -0x4],EAX\<close> both scripts
  add the bracketed text to the definitions. \<^verbatim>\<open>Lab4_networkx.py\<close> adds the register EBP
  inside the brackets to the uses; \<^verbatim>\<open>Lab3_Plugin.py\<close> adds it to the definitions and
  not to the uses.
\<close>

theorem written_memory_operand_register:
  "operandRegisterHelper Lab3_Plugin mov_store_example [] [] =
     ([''EBP'', ''[EBP + -0x4]''], [''EAX''])
   \<and> operandRegisterHelper Lab4_networkx mov_store_example [] [] =
     ([''[EBP + -0x4]''], [''EBP'', ''EAX''])
   \<and> ''EBP'' \<notin> set (snd (operandRegisterHelper Lab3_Plugin mov_store_example [] []))"
proof -
  have l3: "operandRegisterHelper Lab3_Plugin mov_store_example [] [] =
     ([''EBP'', ''[EBP + -0x4]''], [''EAX''])"
    by (simp add: mov_store_example_def example_defs analyze_defs)
  have l4: "operandRegisterHelper Lab4_networkx mov_store_example [] [] =
     ([''[EBP + -0x4]''], [''EBP'', ''EAX''])"
    by (simp add: mov_store_example_def example_defs analyze_defs)
  have no: "''EBP'' \<notin> set (snd (operandRegisterHelper Lab3_Plugin mov_store_example [] []))"
    by (simp add: l3)
  show ?thesis by (rule conjI[OF l3 conjI[OF l4 no]])
qed

subsection \<open>Claims about the enumeration of paths\<close>

lemma traverse_distinct:
  "loop_limit = 1 \<Longrightarrow>
   traverse depth getSources block visited path paths entry_block loop_limit = Inr paths' \<Longrightarrow>
   visited_ok visited path \<Longrightarrow> \<forall>p\<in>set paths. distinct p \<Longrightarrow> \<forall>p\<in>set paths'. distinct p"
  and traverse_sources_distinct:
  "traverse_sources depth getSources sources visited path paths entry_block = Inr paths' \<Longrightarrow>
   visited_ok visited path \<Longrightarrow> \<forall>p\<in>set paths. distinct p \<Longrightarrow> \<forall>p\<in>set paths'. distinct p"
proof (induction depth getSources block visited path paths entry_block loop_limit
        and depth getSources sources visited path paths entry_block
        arbitrary: paths' and paths'
        rule: traverse_traverse_sources.induct)
  case (1 getSources block visited path paths entry_block loop_limit)
  then show ?case by simp
next
  case (2 depth getSources block visited path paths entry_block loop_limit)
  show ?case
  proof (cases "visited block = 1")
    case True
    with "2.prems" show ?thesis by simp
  next
    case False
    with "2.prems"(3) have zero: "visited block = 0"
      by (metis visited_ok_def le_neq_implies_less less_one)
    with "2.prems"(3) have fresh: "block \<notin> set path"
      by (auto simp: visited_ok_def)
    from "2.prems"(3) fresh have d: "distinct (block # path)"
      by (simp add: visited_ok_def)
    have ok: "visited_ok (visited(block := visited block + 1)) (block # path)"
      using "2.prems"(3) zero fresh by (auto simp: visited_ok_def)
    show ?thesis
    proof (cases "block = entry_block \<or> getSources block = []")
      case True
      with False "2.prems" d show ?thesis by (auto split: if_splits)
    next
      case rec: False
      with False "2.prems" have
        "traverse_sources depth getSources (getSources block)
           (visited(block := visited block + 1)) (block # path) paths entry_block = Inr paths'"
        by simp
      from "2.IH"[OF _ _ _ this ok "2.prems"(4)] False rec "2.prems"(1) show ?thesis by simp
    qed
  qed
next
  case (3 depth getSources visited path paths entry_block)
  then show ?case by simp
next
  case (4 depth getSources source_block rest visited path paths entry_block)
  from "4.prems"(1) obtain paths1 where
    a: "traverse depth getSources source_block visited path paths entry_block 1 = Inr paths1" and
    b: "traverse_sources depth getSources rest visited path paths1 entry_block = Inr paths'"
    by (auto split: sum.splits)
  have "\<forall>p\<in>set paths1. distinct p"
    by (rule "4.IH"(1)[OF refl a "4.prems"(2) "4.prems"(3)])
  from "4.IH"(2)[OF a b "4.prems"(2) this] show ?case .
qed

lemma traverse_ret_blocks_distinct:
  "traverse_ret_blocks depth getSources ret_blocks visited paths entry_block = Inr paths' \<Longrightarrow>
   \<forall>b. visited b \<le> 1 \<Longrightarrow> \<forall>p\<in>set paths. distinct p \<Longrightarrow> \<forall>p\<in>set paths'. distinct p"
proof (induction ret_blocks arbitrary: visited paths)
  case Nil
  then show ?case by simp
next
  case (Cons ret_block rest)
  from Cons.prems(1) obtain paths1 where
    a: "traverse depth getSources ret_block visited [] paths entry_block 1 = Inr paths1" and
    b: "traverse_ret_blocks depth getSources rest
          (if visited ret_block = 1 then visited
           else visited(ret_block := visited ret_block + 1)) paths1 entry_block = Inr paths'"
    by (auto split: sum.splits)
  have ok: "visited_ok visited []"
    using Cons.prems(2) by (simp add: visited_ok_def)
  have d1: "\<forall>p\<in>set paths1. distinct p"
    by (rule traverse_distinct[OF refl a ok Cons.prems(3)])
  have v: "\<forall>b. (if visited ret_block = 1 then visited
                 else visited(ret_block := visited ret_block + 1)) b \<le> 1"
  proof
    fix b
    have "visited ret_block \<le> 1" "visited b \<le> 1" using Cons.prems(2) by auto
    then show "(if visited ret_block = 1 then visited
                 else visited(ret_block := visited ret_block + 1)) b \<le> 1"
      by auto
  qed
  show ?case by (rule Cons.IH[OF b v d1])
qed

lemma distinct_count_list_le_1: "distinct xs \<Longrightarrow> count_list xs x \<le> 1"
  by (induction xs) auto

text \<open>
  C3. The bound of the enumeration is 1, not 2 or more: on every path that
  \<^verbatim>\<open>reverse_traverse_cfg\<close> of \<^verbatim>\<open>Lab3_Plugin.py\<close> produces, every block occurs at
  most once, so that no path holds a second round of a loop.
\<close>

theorem reverse_traverse_cfg_enters_once:
  assumes "reverse_traverse_cfg depth getSources entry_block ret_blocks = Inr paths"
    and "p \<in> set paths"
  shows "count_list p block \<le> 1"
proof -
  have "\<forall>p\<in>set paths. distinct p"
    using assms(1) unfolding reverse_traverse_cfg_def
    by (rule traverse_ret_blocks_distinct) simp_all
  with assms(2) have "distinct p" by blast
  then show ?thesis by (rule distinct_count_list_le_1)
qed

theorem reverse_traverse_cfg_enters_once_witness:
  "(\<forall>k. reverse_traverse_cfg (3 + k) loop_example 0 [2] = Inr [[0, 1, 2]])
   \<and> count_list [0, 1, 2] (1::nat) \<le> 1
   \<and> [0, 1, 1, 2] \<notin> set [[0, 1, 2 :: nat]]"
proof -
  have run: "reverse_traverse_cfg (3 + k) loop_example 0 [2] = Inr [[0, 1, 2]]" for k
  proof -
    have k: "3 + k = Suc (Suc (Suc k))" by simp
    show ?thesis unfolding k by (simp add: reverse_traverse_cfg_def loop_example_def)
  qed
  have mem: "[0, 1, 2] \<in> set [[0, 1, 2 :: nat]]" by simp
  have once: "count_list [0, 1, 2] (1::nat) \<le> 1"
    by (rule reverse_traverse_cfg_enters_once[OF run[of 0] mem])
  have no: "[0, 1, 1, 2] \<notin> set [[0, 1, 2 :: nat]]" by simp
  from run once no show ?thesis by simp
qed

subsection \<open>Claims about the dependency graph\<close>

lemma collect_step_instruction_list:
  "collect_step v set_iter c instruction = Inr c1 \<Longrightarrow>
   instruction_list c1 = instruction_list c @ [drop 2 (getAddress instruction)]"
  by (auto simp: collect_step_def Let_def split: sum.splits option.splits script.splits prod.splits)

lemma collect_step_dependsOn:
  "collect_step Lab3_Plugin set_iter c instruction = Inr c1 \<Longrightarrow>
   dom (dependsOn c1) = insert (drop 2 (getAddress instruction)) (dom (dependsOn c))"
  by (auto simp: collect_step_def Let_def split: sum.splits option.splits prod.splits)

lemma collect_loop_instruction_list:
  "collect_loop v set_iter c instructions = Inr c1 \<Longrightarrow>
   instruction_list c1 = instruction_list c @ map (\<lambda>instruction. drop 2 (getAddress instruction)) instructions"
proof (induction instructions arbitrary: c)
  case Nil
  then show ?case by simp
next
  case (Cons instruction rest)
  from Cons.prems obtain c2 where
    a: "collect_step v set_iter c instruction = Inr c2" and
    b: "collect_loop v set_iter c2 rest = Inr c1"
    by (auto split: sum.splits)
  show ?case using Cons.IH[OF b] collect_step_instruction_list[OF a] by simp
qed

lemma collect_loop_dependsOn:
  "collect_loop Lab3_Plugin set_iter c instructions = Inr c1 \<Longrightarrow>
   dom (dependsOn c1) = dom (dependsOn c) \<union> (\<lambda>instruction. drop 2 (getAddress instruction)) ` set instructions"
proof (induction instructions arbitrary: c)
  case Nil
  then show ?case by simp
next
  case (Cons instruction rest)
  from Cons.prems obtain c2 where
    a: "collect_step Lab3_Plugin set_iter c instruction = Inr c2" and
    b: "collect_loop Lab3_Plugin set_iter c2 rest = Inr c1"
    by (auto split: sum.splits)
  show ?case using Cons.IH[OF b] collect_step_dependsOn[OF a] by auto
qed

lemma sort_by_address_sorted:
  "sort_by_address xs = Inr ys \<Longrightarrow>
   sorted (map (\<lambda>x. the (int16 x)) ys) \<and> set ys = set xs \<and> length ys = length xs"
  by (auto simp: sort_by_address_def split: if_splits)

lemma collect_instructions_list:
  assumes "collect_instructions v set_iter instructions = Inr c"
  shows "instruction_list c =
           sort_key (\<lambda>x. the (int16 x)) (map (\<lambda>instruction. drop 2 (getAddress instruction)) instructions)"
    and "v = Lab3_Plugin \<Longrightarrow> dom (dependsOn c) = set (instruction_list c)"
proof -
  from assms obtain c0 ys where
    a: "collect_loop v set_iter collected_init instructions = Inr c0" and
    b: "sort_by_address (instruction_list c0) = Inr ys" and
    c: "c = c0\<lparr>instruction_list := ys\<rparr>"
    by (auto simp: collect_instructions_def split: sum.splits)
  have l: "instruction_list c0 = map (\<lambda>instruction. drop 2 (getAddress instruction)) instructions"
    using collect_loop_instruction_list[OF a] by (simp add: collected_init_def)
  have y: "ys = sort_key (\<lambda>x. the (int16 x)) (instruction_list c0)"
    using b by (auto simp: sort_by_address_def split: if_splits)
  show "instruction_list c =
           sort_key (\<lambda>x. the (int16 x)) (map (\<lambda>instruction. drop 2 (getAddress instruction)) instructions)"
    using c l y by simp
  show "dom (dependsOn c) = set (instruction_list c)" if "v = Lab3_Plugin"
    using collect_loop_dependsOn[of set_iter collected_init instructions c0] a that c l y
    by (simp add: collected_init_def)
qed

lemma create_dot_graph_DD_loop_nth:
  "i < length xs \<Longrightarrow>
   create_dot_graph_DD_loop d node_counter xs ! i =
     Lab3_node_line (''n'' @ decimal (node_counter + i)) (Lab3_label d (xs ! i))"
proof (induction xs arbitrary: i node_counter)
  case Nil
  then show ?case by simp
next
  case (Cons x xs)
  then show ?case by (cases i) simp_all
qed

lemma generate_DD_dot_graph_loop_nth:
  "i < length xs \<Longrightarrow>
   generate_DD_dot_graph_loop d node_counter xs ! i =
     Lab4_node_line (''n'' @ decimal (node_counter + i)) (Lab4_label d (xs ! i))"
proof (induction xs arbitrary: i node_counter)
  case Nil
  then show ?case by simp
next
  case (Cons x xs)
  then show ?case by (cases i) simp_all
qed

lemma lstrip_no_leading: "lstrip c s \<noteq> c # rest"
  unfolding lstrip_def by (induction s) auto


lemma analyze_descending_example:
  "map (analyze_instruction v set_iter) descending_example =
   [Inr (Some (def_use_label [''ESP'', ''[ESP]''] [''EAX'', ''ESP''],
               [''ESP'', ''[ESP]''], [''EAX'', ''ESP''])),
    Inr (Some (def_use_label [''ECX''] [], [''ECX''], [])),
    Inr (Some (def_use_label [''ESP'', ''[ESP]''] [''ECX'', ''ESP''],
               [''ESP'', ''[ESP]''], [''ECX'', ''ESP'']))]"
  by (simp add: descending_example_def asm_def register_operand_def other_operand_def
      READ_def WRITE_def DATA_def analyze_defs)

lemma descending_example_Lab3:
  "\<exists>c. collect_instructions Lab3_Plugin set_iter descending_example = Inr c \<and>
     instruction_list c = [''401000'', ''401001'', ''401006''] \<and>
     dependsOn c ''401006'' = Some [''401001'', ''401000'']"
  using analyze_descending_example[of Lab3_Plugin set_iter]
  apply (simp add: descending_example_def)
  apply (simp add: collect_defs)
  done

lemma descending_example_Lab4:
  "\<exists>c. collect_instructions Lab4_networkx set_iter descending_example = Inr c \<and>
     instruction_list c = [''401000'', ''401001'', ''401006''] \<and>
     map_option DD (compute_data_dependencies set_iter
        (prepend_START_to_each_path [descending_example]) (instruction_def_use c) ''00401006'') =
       Some [''00401001'', ''00401000'']"
  using analyze_descending_example[of Lab4_networkx set_iter]
  apply (simp add: descending_example_def)
  apply (simp add: collect_defs compute_data_dependencies_def prepend_START_to_each_path_def)
  done

lemma analyze_low_address_example:
  "map (analyze_instruction v set_iter) low_address_example =
   [Inr (Some (def_use_label [''EAX''] [], [''EAX''], []))]"
  by (simp add: low_address_example_def asm_def register_operand_def other_operand_def
      READ_def WRITE_def DATA_def analyze_defs)

lemma low_address_example_Lab3:
  "\<exists>c. collect_instructions Lab3_Plugin set_iter low_address_example = Inr c \<and>
     instruction_list c = [''001000''] \<and> dependsOn c ''001000'' = Some []"
  using analyze_low_address_example[of Lab3_Plugin set_iter]
  apply (simp add: low_address_example_def)
  apply (simp add: collect_defs)
  done

text \<open>
  C7, as stated, fails in both scripts. For \<^verbatim>\<open>PUSH EAX; MOV ECX,0x2; PUSH ECX\<close> the
  node of the last instruction is labelled \<^verbatim>\<open>0x401006; DD: 0x401001, 0x401000\<close>: the
  list of its dependency sources is in the order of the uses ECX and ESP, which is sorted
  neither as text nor by address. \<^verbatim>\<open>Lab3_Plugin.py\<close> labels the node of an instruction
  at the address 00001000 with \<^verbatim>\<open>0x001000\<close>, which has leading zeros.
\<close>

theorem dependency_graph_counterexample:
  "(\<forall>set_iter. \<exists>c. collect_instructions Lab3_Plugin set_iter descending_example = Inr c
       \<and> instruction_list c = [''401000'', ''401001'', ''401006'']
       \<and> dependsOn c ''401006'' = Some [''401001'', ''401000'']
       \<and> create_dot_graph_DD_nodes (instruction_list c) (dependsOn c) ! 3 =
           Lab3_node_line ''n3'' ''0x401006; DD: 0x401001, 0x401000'')
   \<and> (\<forall>set_iter. \<exists>c. collect_instructions Lab4_networkx set_iter descending_example = Inr c
       \<and> instruction_list c = [''401000'', ''401001'', ''401006'']
       \<and> generate_DD_dot_graph_nodes (instruction_list c)
            (compute_data_dependencies set_iter (prepend_START_to_each_path [descending_example])
               (instruction_def_use c)) ! 3 =
           Lab4_node_line ''n3'' ''0x401006; DD: 0x401001, 0x401000'')
   \<and> \<not> sorted [''0x401001'', ''0x401000'']
   \<and> int16 ''401001'' = Some 4198401 \<and> int16 ''401000'' = Some 4198400
   \<and> \<not> sorted [4198401, 4198400 :: int]
   \<and> (\<forall>set_iter. \<exists>c. collect_instructions Lab3_Plugin set_iter low_address_example = Inr c
       \<and> create_dot_graph_DD_nodes (instruction_list c) (dependsOn c) ! 1 =
           Lab3_node_line ''n1'' ''0x001000; DD: '')"
proof -
  have a: "\<exists>c. collect_instructions Lab3_Plugin set_iter descending_example = Inr c
       \<and> instruction_list c = [''401000'', ''401001'', ''401006'']
       \<and> dependsOn c ''401006'' = Some [''401001'', ''401000'']
       \<and> create_dot_graph_DD_nodes (instruction_list c) (dependsOn c) ! 3 =
           Lab3_node_line ''n3'' ''0x401006; DD: 0x401001, 0x401000''" for set_iter
  proof -
    from descending_example_Lab3[of set_iter] obtain c where
      c: "collect_instructions Lab3_Plugin set_iter descending_example = Inr c"
         "instruction_list c = [''401000'', ''401001'', ''401006'']"
         "dependsOn c ''401006'' = Some [''401001'', ''401000'']"
      by blast
    have "create_dot_graph_DD_nodes (instruction_list c) (dependsOn c) ! 3 =
           Lab3_node_line ''n3'' ''0x401006; DD: 0x401001, 0x401000''"
      by (simp add: c create_dot_graph_DD_nodes_def eval_nat_numeral decimal.simps Lab3_label_def
          Lab3_dependency_def)
    with c show ?thesis by blast
  qed
  have b: "\<exists>c. collect_instructions Lab4_networkx set_iter descending_example = Inr c
       \<and> instruction_list c = [''401000'', ''401001'', ''401006'']
       \<and> generate_DD_dot_graph_nodes (instruction_list c)
            (compute_data_dependencies set_iter (prepend_START_to_each_path [descending_example])
               (instruction_def_use c)) ! 3 =
           Lab4_node_line ''n3'' ''0x401006; DD: 0x401001, 0x401000''" for set_iter
  proof -
    from descending_example_Lab4[of set_iter] obtain c where
      c: "collect_instructions Lab4_networkx set_iter descending_example = Inr c"
         "instruction_list c = [''401000'', ''401001'', ''401006'']"
         "map_option DD (compute_data_dependencies set_iter
            (prepend_START_to_each_path [descending_example]) (instruction_def_use c) ''00401006'') =
          Some [''00401001'', ''00401000'']"
      by blast
    from c(3) obtain entry where
      e: "compute_data_dependencies set_iter
            (prepend_START_to_each_path [descending_example]) (instruction_def_use c) ''00401006'' =
          Some entry" "DD entry = [''00401001'', ''00401000'']"
      by blast
    have "generate_DD_dot_graph_nodes (instruction_list c)
            (compute_data_dependencies set_iter (prepend_START_to_each_path [descending_example])
               (instruction_def_use c)) ! 3 =
           Lab4_node_line ''n3'' ''0x401006; DD: 0x401001, 0x401000''"
      by (simp add: c(2) e generate_DD_dot_graph_nodes_def eval_nat_numeral decimal.simps
          Lab4_label_def dd_labels_def lstrip_def)
    with c show ?thesis by blast
  qed
  have s: "\<not> sorted [''0x401001'', ''0x401000'']" by simp
  have i1: "int16 ''401001'' = Some 4198401" by (simp add: int16_def hex_digit_def)
  have i2: "int16 ''401000'' = Some 4198400" by (simp add: int16_def hex_digit_def)
  have n: "\<not> sorted [4198401, 4198400 :: int]" by simp
  have l: "\<exists>c. collect_instructions Lab3_Plugin set_iter low_address_example = Inr c
       \<and> create_dot_graph_DD_nodes (instruction_list c) (dependsOn c) ! 1 =
           Lab3_node_line ''n1'' ''0x001000; DD: ''" for set_iter
  proof -
    from low_address_example_Lab3[of set_iter] obtain c where
      c: "collect_instructions Lab3_Plugin set_iter low_address_example = Inr c"
         "instruction_list c = [''001000'']" "dependsOn c ''001000'' = Some []"
      by blast
    have "create_dot_graph_DD_nodes (instruction_list c) (dependsOn c) ! 1 =
           Lab3_node_line ''n1'' ''0x001000; DD: ''"
      by (simp add: c create_dot_graph_DD_nodes_def decimal.simps Lab3_label_def)
    with c show ?thesis by blast
  qed
  from a b s i1 i2 n l show ?thesis by (intro conjI allI)
qed

text \<open>
  C7, as amended. The nodes are numbered \<^verbatim>\<open>n1\<close>, \<^verbatim>\<open>n2\<close>, ... in the order of the
  instruction list, which holds the address texts of the instructions without their first
  two characters, sorted by their value as hexadecimal numbers. The label of a node lists
  its dependency sources in the order in which they are stored, \<^verbatim>\<open>dependsOn[addr]\<close> in
  \<^verbatim>\<open>Lab3_Plugin.py\<close> and \<^verbatim>\<open>deps['DD']\<close> in \<^verbatim>\<open>Lab4_networkx.py\<close>, and nothing
  sorts them. \<^verbatim>\<open>Lab3_Plugin.py\<close> writes an address as \<^verbatim>\<open>0x\<close> and the text of the
  instruction list as it is; \<^verbatim>\<open>Lab4_networkx.py\<close> writes \<^verbatim>\<open>0x\<close> and the text
  without its leading zeros. Neither changes the case of a letter.
\<close>

theorem dependency_graph_nodes:
  assumes "collect_instructions Lab3_Plugin set_iter instructions = Inr c3"
    and "collect_instructions Lab4_networkx set_iter instructions = Inr c4"
    and "i < length instructions"
  shows "instruction_list c4 = instruction_list c3
     \<and> length (instruction_list c3) = length instructions
     \<and> set (instruction_list c3) = (\<lambda>instruction. drop 2 (getAddress instruction)) ` set instructions
     \<and> sorted (map (\<lambda>x. the (int16 x)) (instruction_list c3))
     \<and> (\<exists>deps. dependsOn c3 (instruction_list c3 ! i) = Some deps \<and>
          create_dot_graph_DD_nodes (instruction_list c3) (dependsOn c3) ! Suc i =
            Lab3_node_line (''n'' @ decimal (Suc i))
              (''0x'' @ instruction_list c3 ! i @ ''; DD: '' @
               join '', '' (map (\<lambda>x. if x \<noteq> ''START'' then ''0x'' @ x else x) deps)))
     \<and> generate_DD_dot_graph_nodes (instruction_list c4) all_dependencies ! Suc i =
          Lab4_node_line (''n'' @ decimal (Suc i))
            (''0x'' @ lstrip CHR ''0'' (''00'' @ instruction_list c4 ! i) @
              (case all_dependencies (''00'' @ instruction_list c4 ! i) of
                 None \<Rightarrow> ''; DD:''
               | Some entry \<Rightarrow>
                   ''; DD: '' @
                   join '', '' (map (\<lambda>addr. if addr \<noteq> ''START''
                                               then ''0x'' @ lstrip CHR ''0'' addr else ''START'')
                                  (DD entry))))
     \<and> lstrip CHR ''0'' (''00'' @ instruction_list c4 ! i) \<noteq> CHR ''0'' # rest"
proof -
  note l3 = collect_instructions_list[OF assms(1)]
  note l4 = collect_instructions_list(1)[OF assms(2)]
  have eq: "instruction_list c4 = instruction_list c3" using l3(1) l4 by simp
  have len: "length (instruction_list c3) = length instructions" using l3(1) by simp
  have st: "set (instruction_list c3) = (\<lambda>instruction. drop 2 (getAddress instruction)) ` set instructions"
    using l3(1) by simp
  have so: "sorted (map (\<lambda>x. the (int16 x)) (instruction_list c3))"
    using l3(1) by (simp add: sorted_sort_key)
  have i3: "i < length (instruction_list c3)" using len assms(3) by simp
  have i4: "i < length (instruction_list c4)" using eq i3 by simp
  have "instruction_list c3 ! i \<in> dom (dependsOn c3)"
    using l3(2) i3 by simp
  then obtain deps where deps: "dependsOn c3 (instruction_list c3 ! i) = Some deps" by blast
  have ne: "instruction_list c3 \<noteq> []" using i3 by auto
  have n3: "create_dot_graph_DD_nodes (instruction_list c3) (dependsOn c3) ! Suc i =
            Lab3_node_line (''n'' @ decimal (Suc i))
              (''0x'' @ instruction_list c3 ! i @ ''; DD: '' @
               join '', '' (map (\<lambda>x. if x \<noteq> ''START'' then ''0x'' @ x else x) deps))"
    using create_dot_graph_DD_loop_nth[OF i3, of "dependsOn c3" 1] ne deps
    by (simp add: create_dot_graph_DD_nodes_def Lab3_label_def Lab3_dependency_def[abs_def])
  have j: "join sep (map f []) = []" for sep f by simp
  have n4: "generate_DD_dot_graph_nodes (instruction_list c4) all_dependencies ! Suc i =
          Lab4_node_line (''n'' @ decimal (Suc i))
            (''0x'' @ lstrip CHR ''0'' (''00'' @ instruction_list c4 ! i) @
              (case all_dependencies (''00'' @ instruction_list c4 ! i) of
                 None \<Rightarrow> ''; DD:''
               | Some entry \<Rightarrow>
                   ''; DD: '' @
                   join '', '' (map (\<lambda>addr. if addr \<noteq> ''START''
                                               then ''0x'' @ lstrip CHR ''0'' addr else ''START'')
                                  (DD entry))))"
    using generate_DD_dot_graph_loop_nth[of i "map (\<lambda>instr. ''00'' @ instr) (instruction_list c4)"
        all_dependencies 1] i4
    by (simp add: generate_DD_dot_graph_nodes_def Lab4_label_def dd_labels_def
        split: option.splits)
  have ls: "lstrip CHR ''0'' (''00'' @ instruction_list c4 ! i) \<noteq> CHR ''0'' # rest"
    by (rule lstrip_no_leading)
  from eq len st so deps n3 n4 ls show ?thesis by blast
qed


theorem dependency_graph_nodes_witness:
  "\<exists>c3 c4. collect_instructions Lab3_Plugin id descending_example = Inr c3
     \<and> collect_instructions Lab4_networkx id descending_example = Inr c4
     \<and> (2::nat) < length descending_example
     \<and> instruction_list c4 = instruction_list c3
     \<and> instruction_list c3 = [''401000'', ''401001'', ''401006'']
     \<and> sorted (map (\<lambda>x. the (int16 x)) (instruction_list c3))
     \<and> create_dot_graph_DD_nodes (instruction_list c3) (dependsOn c3) ! 3 =
         Lab3_node_line ''n3'' ''0x401006; DD: 0x401001, 0x401000''
     \<and> generate_DD_dot_graph_nodes (instruction_list c4) Map.empty ! 3 =
         Lab4_node_line ''n3'' ''0x401006; DD:''"
proof -
  from descending_example_Lab3[of id] obtain c3 where
    c3: "collect_instructions Lab3_Plugin id descending_example = Inr c3"
        "instruction_list c3 = [''401000'', ''401001'', ''401006'']"
        "dependsOn c3 ''401006'' = Some [''401001'', ''401000'']"
    by blast
  from descending_example_Lab4[of id] obtain c4 where
    c4: "collect_instructions Lab4_networkx id descending_example = Inr c4"
    by blast
  have len: "(2::nat) < length descending_example" by (simp add: descending_example_def)
  note t = dependency_graph_nodes[OF c3(1) c4 len, of Map.empty]
  have eq: "instruction_list c4 = instruction_list c3" using t by (rule conjunct1)
  have so: "sorted (map (\<lambda>x. the (int16 x)) (instruction_list c3))"
    using t[THEN conjunct2, THEN conjunct2, THEN conjunct2] by (rule conjunct1)
  have n3: "create_dot_graph_DD_nodes (instruction_list c3) (dependsOn c3) ! 3 =
         Lab3_node_line ''n3'' ''0x401006; DD: 0x401001, 0x401000''"
    using t[THEN conjunct2, THEN conjunct2, THEN conjunct2, THEN conjunct2, THEN conjunct1]
    by (simp add: c3 eval_nat_numeral decimal.simps)
  have n4: "generate_DD_dot_graph_nodes (instruction_list c4) Map.empty ! 3 =
         Lab4_node_line ''n3'' ''0x401006; DD:''"
    using t[THEN conjunct2, THEN conjunct2, THEN conjunct2, THEN conjunct2, THEN conjunct2,
            THEN conjunct1]
    by (simp add: eq c3(2) eval_nat_numeral decimal.simps lstrip_def)
  from c3(1,2) c4 len eq so n3 n4 show ?thesis by blast
qed

end
